theory Spec2Isabelle
  imports Complex_Main "HOL-Library.Multiset"
begin

section \<open>Conventions of the embedding\<close>

text \<open>
  The program is one Python file, \<^verbatim>\<open>tiny-imagenet-200.py\<close>: five wrapper classes around
  \<^verbatim>\<open>torch.hub.load\<close>, the functions \<^verbatim>\<open>train\<close>, \<^verbatim>\<open>test\<close> and \<^verbatim>\<open>main\<close>, and the table
  \<^verbatim>\<open>MODEL_MAP\<close>. The embedding follows it function by function.

  \<^item> Python floats are modelled as \<^typ>\<open>real\<close>: sums and quotients are exact, so rounding,
    overflow, underflow and NaN are outside the model.
  \<^item> An exception is a value of type \<open>error\<close>; a statement that may raise has a result of
    type \<open>error + 'a\<close>.
  \<^item> The process state that \<^verbatim>\<open>main\<close> mutates (\<^verbatim>\<open>os.environ\<close>, the cuDNN flags, the four
    random generators, the console) is the record \<open>world\<close>; a statement is a function
    from the world to a result and the next world. The field \<open>trace\<close> lists every
    effect in the order the statements run.
  \<^item> The libraries (torch, torchvision, tqdm, argparse) are not part of the repository.
    What the program needs of them is a parameter: the record \<open>torch\<close> holds the
    numerical operations, the record \<open>host\<close> what the machine provides.
\<close>

section \<open>Errors and statements\<close>

datatype error =
    InvalidChoice string "string list"
  | MissingRequired string
  | ValueError
  | IndexError
  | KeyError string
  | ZeroDivisionError
  | FileNotFoundError string
  | RuntimeError

type_synonym ('a, 's) prog = "'s \<Rightarrow> (error + 'a) \<times> 's"

definition return :: "'a \<Rightarrow> ('a, 's) prog" where
  "return a s = (Inr a, s)"

definition raise :: "error \<Rightarrow> ('a, 's) prog" where
  "raise e s = (Inl e, s)"

definition lift_result :: "error + 'a \<Rightarrow> ('a, 's) prog" where
  "lift_result r s = (r, s)"

definition bind_prog :: "('a, 's) prog \<Rightarrow> ('a \<Rightarrow> ('b, 's) prog) \<Rightarrow> ('b, 's) prog" where
  "bind_prog m f s = (case m s of (Inl e, s') \<Rightarrow> (Inl e, s') | (Inr a, s') \<Rightarrow> f a s')"

section \<open>The process state\<close>

text \<open>
  A generator is either in a state derived from operating-system entropy or in the state
  that seeding with a value puts it in, advanced by a number of draws.
\<close>

datatype gen = Entropy nat | Seeded int nat

record rngs =
  torch_gen :: gen
  cuda_gen :: gen
  py_gen :: gen
  np_gen :: gen

record hub_call =
  repo :: string
  entry :: string
  pretrained :: bool
  num_classes :: nat

datatype event =
    SetEnviron string string
  | SetCudnn string bool
  | SeedCall string int
  | Print_Device string
  | Print_VGA int string
  | ImageFolder_call string
  | DataLoader_call int bool
  | HubLoad hub_call
  | Print_Epoch int
  | PbarOpen nat
  | PbarUpdate nat
  | PbarPostfix real
  | Print_TrainElapsed
  | Print_Test real nat nat real
  | Print_TestElapsed
  | SchedulerStep

record world =
  environ :: "string \<rightharpoonup> string"
  cudnn_deterministic :: bool
  cudnn_benchmark :: bool
  rng :: rngs
  trace :: "event list"

definition emit :: "event \<Rightarrow> (unit, world) prog" where
  "emit e w = (Inr (), w\<lparr>trace := trace w @ [e]\<rparr>)"

section \<open>The libraries as parameters\<close>

text \<open>
  \<open>'f\<close> is an image file, \<open>'x\<close> an input tensor, \<open>'p\<close> the parameters of a network,
  \<open>'b\<close> its buffers (the running statistics of batch normalisation), \<open>'g\<close> the
  accumulated gradients and \<open>'o\<close> the accumulators of the optimizer.

  \<^item> \<open>forward m p b xs\<close> is \<^verbatim>\<open>model(data)\<close> in training mode (\<open>m\<close> true) or evaluation
    mode: one row of logits for each input of the batch.
  \<^item> \<open>track_stats\<close> is the update of the buffers that a forward pass makes in training
    mode; a module in evaluation mode leaves its buffers alone.
  \<^item> \<open>zero_grad\<close>, \<open>backward\<close> and \<open>adadelta_step\<close> are \<^verbatim>\<open>optimizer.zero_grad()\<close>,
    \<^verbatim>\<open>loss.backward()\<close> and \<^verbatim>\<open>optimizer.step()\<close>.
  \<^item> \<open>rand_keys\<close> draws the random order of a shuffling loader: the order is the index
    list sorted by the keys drawn, so every draw is a permutation.
  \<^item> \<open>train_transform\<close> is the random crop and flip of the training set, which draws
    from the generators; \<open>test_transform\<close> is the fixed resize and crop.
  \<^item> \<open>hub_load\<close> is \<^verbatim>\<open>torch.hub.load\<close>: it initialises a network (parameters, buffers,
    no gradients yet) from the generators; \<open>adadelta_init\<close> is the fresh state of
    \<^verbatim>\<open>optim.Adadelta\<close>.
\<close>

record ('f, 'x, 'p, 'b, 'g, 'o) torch =
  forward :: "bool \<Rightarrow> 'p \<Rightarrow> 'b \<Rightarrow> 'x list \<Rightarrow> real list list"
  track_stats :: "'p \<Rightarrow> 'b \<Rightarrow> 'x list \<Rightarrow> 'b"
  zero_grad :: "'g \<Rightarrow> 'g"
  backward :: "'p \<Rightarrow> 'b \<Rightarrow> 'x list \<Rightarrow> nat list \<Rightarrow> 'g \<Rightarrow> 'g"
  adadelta_init :: "'p \<Rightarrow> 'o"
  adadelta_step :: "real \<Rightarrow> 'o \<Rightarrow> 'g \<Rightarrow> 'p \<Rightarrow> 'o \<times> 'p"
  rand_keys :: "rngs \<Rightarrow> (nat \<Rightarrow> nat) \<times> rngs"
  train_transform :: "rngs \<Rightarrow> 'f \<Rightarrow> 'x \<times> rngs"
  test_transform :: "'f \<Rightarrow> 'x"
  hub_load :: "hub_call \<Rightarrow> rngs \<Rightarrow> ('p \<times> 'b \<times> 'g) \<times> rngs"

record 'f host =
  cuda_is_available :: "(string \<rightharpoonup> string) \<Rightarrow> bool"
  get_device_name :: string
  image_folder :: "string \<Rightarrow> ('f \<times> nat) list option"
  py_int :: "string \<Rightarrow> int option"

section \<open>The model and the optimizer\<close>

text \<open>
  The objects \<^verbatim>\<open>model\<close> and \<^verbatim>\<open>optimizer\<close> are mutated together; one record holds both:
  the parameters, the buffers, the mode flag and the gradients of the model, the
  accumulators and the learning rate of the optimizer.
\<close>

record ('p, 'b, 'g, 'o) learner =
  params :: 'p
  buffers :: 'b
  training :: bool
  grads :: 'g
  opt_state :: 'o
  opt_lr :: real

definition call_model ::
  "('f, 'x, 'p, 'b, 'g, 'o) torch \<Rightarrow> ('p, 'b, 'g, 'o) learner \<Rightarrow> 'x list \<Rightarrow>
   real list list \<times> ('p, 'b, 'g, 'o) learner" where
  "call_model T L xs =
     (forward T (training L) (params L) (buffers L) xs,
      if training L then L\<lparr>buffers := track_stats T (params L) (buffers L) xs\<rparr> else L)"

subsection \<open>The criterion: cross entropy with sum reduction\<close>

text \<open>
  \<^verbatim>\<open>nn.CrossEntropyLoss(reduction='sum')\<close>: the loss of one sample is the negated
  logarithm of the softmax probability of its label; the loss of a batch is the sum.
  A label outside the row is an IndexError, a batch whose rows and labels differ in
  number a ValueError.
\<close>

definition cross_entropy :: "real list \<Rightarrow> nat \<Rightarrow> real" where
  "cross_entropy row t = ln (sum_list (map exp row)) - row ! t"

definition CrossEntropyLoss_sum :: "real list list \<Rightarrow> nat list \<Rightarrow> error + real" where
  "CrossEntropyLoss_sum output target =
     (if length output \<noteq> length target then Inl ValueError
      else if \<not> list_all (\<lambda>(row, t). t < length row) (zip output target) then Inl IndexError
      else Inr (sum_list (map (\<lambda>(row, t). cross_entropy row t) (zip output target))))"

text \<open>\<^verbatim>\<open>output.argmax(dim=1)\<close>: the first index of a greatest logit of the row.\<close>

fun argmax :: "real list \<Rightarrow> nat" where
  "argmax [] = 0"
| "argmax (x # xs) = (if list_all (\<lambda>y. y \<le> x) xs then 0 else Suc (argmax xs))"

section \<open>The data supply\<close>

datatype transform = TrainTransform | TestTransform

record 'f dataset =
  samples :: "('f \<times> nat) list"
  transform :: transform

record 'f loader =
  dataset :: "'f dataset"
  loader_batch_size :: nat
  loader_shuffle :: bool
  loader_num_workers :: nat
  loader_pin_memory :: bool

text \<open>
  The batches of one pass: consecutive groups of \<open>n\<close> samples, the last one smaller when
  \<open>n\<close> does not divide the number of samples (\<^verbatim>\<open>drop_last\<close> is off). A loader is never
  built with \<open>n = 0\<close>.
\<close>

function chunks :: "nat \<Rightarrow> 'a list \<Rightarrow> 'a list list" where
  "chunks n xs = (if n = 0 \<or> xs = [] then [] else take n xs # chunks n (drop n xs))"
  by pat_completeness auto
termination
  by (relation "measure (\<lambda>(n, xs). length xs)") auto

declare chunks.simps [simp del]

text \<open>\<^verbatim>\<open>len(loader)\<close>: the number of batches, as the library computes it.\<close>

definition len_loader :: "'f loader \<Rightarrow> nat" where
  "len_loader ld =
     (length (samples (dataset ld)) + loader_batch_size ld - 1) div loader_batch_size ld"

definition sampler ::
  "('f, 'x, 'p, 'b, 'g, 'o) torch \<Rightarrow> bool \<Rightarrow> nat \<Rightarrow> rngs \<Rightarrow> nat list \<times> rngs" where
  "sampler T shuffle n r =
     (if shuffle then (let (k, r') = rand_keys T r in (sort_key k [0..<n], r'))
      else ([0..<n], r))"

definition apply_transform ::
  "('f, 'x, 'p, 'b, 'g, 'o) torch \<Rightarrow> transform \<Rightarrow> rngs \<Rightarrow> 'f \<Rightarrow> 'x \<times> rngs" where
  "apply_transform T tr r f =
     (case tr of TrainTransform \<Rightarrow> train_transform T r f
               | TestTransform \<Rightarrow> (test_transform T f, r))"

fun fetch ::
  "('f, 'x, 'p, 'b, 'g, 'o) torch \<Rightarrow> 'f dataset \<Rightarrow> nat list \<Rightarrow> rngs \<Rightarrow>
   ('x \<times> nat) list \<times> rngs" where
  "fetch T ds [] r = ([], r)"
| "fetch T ds (i # js) r =
     (let (f, y) = samples ds ! i;
          (x, r1) = apply_transform T (transform ds) r f;
          (rest, r2) = fetch T ds js r1
      in ((x, y) # rest, r2))"

definition iterate ::
  "('f, 'x, 'p, 'b, 'g, 'o) torch \<Rightarrow> 'f loader \<Rightarrow> (('x \<times> nat) list list, world) prog" where
  "iterate T ld w =
     (let (idx, r1) = sampler T (loader_shuffle ld) (length (samples (dataset ld))) (rng w);
          (xs, r2) = fetch T (dataset ld) idx r1
      in (Inr (chunks (loader_batch_size ld) xs), w\<lparr>rng := r2\<rparr>))"

section \<open>The training loop\<close>

record ('p, 'b, 'g, 'o) train_vars =
  tv_learner :: "('p, 'b, 'g, 'o) learner"
  training_loss_sum :: real
  processed_samples :: nat

text \<open>The body of the loop of \<^verbatim>\<open>train\<close>, for the batch with index \<open>batch_idx\<close>.\<close>

definition train_batch ::
  "('f, 'x, 'p, 'b, 'g, 'o) torch \<Rightarrow> (real list list \<Rightarrow> nat list \<Rightarrow> error + real) \<Rightarrow>
   nat \<Rightarrow> nat \<Rightarrow> ('x \<times> nat) list \<Rightarrow> ('p, 'b, 'g, 'o) train_vars \<Rightarrow>
   (('p, 'b, 'g, 'o) train_vars, world) prog" where
  "train_batch T criterion n_batches batch_idx batch v =
     (let data = map fst batch;
          target = map snd batch;
          L0 = tv_learner v;
          L1 = L0\<lparr>grads := zero_grad T (grads L0)\<rparr>;
          (output, L2) = call_model T L1 data
      in bind_prog (lift_result (criterion output target)) (\<lambda>loss.
         let L3 = L2\<lparr>grads := backward T (params L1) (buffers L1) data target (grads L2)\<rparr>;
             (os, ps) = adadelta_step T (opt_lr L3) (opt_state L3) (grads L3) (params L3);
             L4 = L3\<lparr>params := ps, opt_state := os\<rparr>;
             loss_sum = training_loss_sum v + loss;
             processed = processed_samples v + length data
         in if processed > 2000 \<or> int batch_idx = int n_batches - 1 then
              bind_prog (emit (PbarUpdate processed)) (\<lambda>_.
              if length data = 0 then raise ZeroDivisionError
              else bind_prog (emit (PbarPostfix (loss / real (length data)))) (\<lambda>_.
                return \<lparr>tv_learner = L4, training_loss_sum = loss_sum,
                        processed_samples = 0\<rparr>))
            else
              return \<lparr>tv_learner = L4, training_loss_sum = loss_sum,
                      processed_samples = processed\<rparr>))"

fun train_loop ::
  "('f, 'x, 'p, 'b, 'g, 'o) torch \<Rightarrow> (real list list \<Rightarrow> nat list \<Rightarrow> error + real) \<Rightarrow>
   nat \<Rightarrow> nat \<Rightarrow> ('x \<times> nat) list list \<Rightarrow> ('p, 'b, 'g, 'o) train_vars \<Rightarrow>
   (('p, 'b, 'g, 'o) train_vars, world) prog" where
  "train_loop T criterion n_batches batch_idx [] v = return v"
| "train_loop T criterion n_batches batch_idx (batch # rest) v =
     bind_prog (train_batch T criterion n_batches batch_idx batch v)
       (train_loop T criterion n_batches (Suc batch_idx) rest)"

definition train ::
  "('f, 'x, 'p, 'b, 'g, 'o) torch \<Rightarrow> 'f loader \<Rightarrow> ('p, 'b, 'g, 'o) learner \<Rightarrow>
   (real list list \<Rightarrow> nat list \<Rightarrow> error + real) \<Rightarrow>
   (('p, 'b, 'g, 'o) learner, world) prog" where
  "train T train_loader L criterion =
     (let n = length (samples (dataset train_loader)) in
      bind_prog (emit (PbarOpen n)) (\<lambda>_.
      bind_prog (iterate T train_loader) (\<lambda>batches.
      bind_prog (train_loop T criterion (len_loader train_loader) 0 batches
                   \<lparr>tv_learner = L\<lparr>training := True\<rparr>, training_loss_sum = 0,
                    processed_samples = 0\<rparr>) (\<lambda>v.
      if n = 0 then raise ZeroDivisionError
      else bind_prog (emit (PbarPostfix (training_loss_sum v / real n))) (\<lambda>_.
           bind_prog (emit Print_TrainElapsed) (\<lambda>_.
           return (tv_learner v)))))))"

section \<open>The evaluation loop\<close>

record ('p, 'b, 'g, 'o) test_vars =
  ev_learner :: "('p, 'b, 'g, 'o) learner"
  test_loss :: real
  correct :: nat

text \<open>
  The body of the loop of \<^verbatim>\<open>test\<close>. \<^verbatim>\<open>pred.eq(target.view_as(pred)).sum()\<close> counts the
  rows whose arg-max is the label.
\<close>

definition test_batch ::
  "('f, 'x, 'p, 'b, 'g, 'o) torch \<Rightarrow> (real list list \<Rightarrow> nat list \<Rightarrow> error + real) \<Rightarrow>
   ('x \<times> nat) list \<Rightarrow> ('p, 'b, 'g, 'o) test_vars \<Rightarrow>
   (('p, 'b, 'g, 'o) test_vars, world) prog" where
  "test_batch T criterion batch v =
     (let data = map fst batch;
          target = map snd batch;
          (output, L1) = call_model T (ev_learner v) data
      in bind_prog (lift_result (criterion output target)) (\<lambda>loss.
         let pred = map argmax output;
             hits = length (filter (\<lambda>(p, t). p = t) (zip pred target))
         in return \<lparr>ev_learner = L1, test_loss = test_loss v + loss,
                    correct = correct v + hits\<rparr>))"

fun test_loop ::
  "('f, 'x, 'p, 'b, 'g, 'o) torch \<Rightarrow> (real list list \<Rightarrow> nat list \<Rightarrow> error + real) \<Rightarrow>
   ('x \<times> nat) list list \<Rightarrow> ('p, 'b, 'g, 'o) test_vars \<Rightarrow>
   (('p, 'b, 'g, 'o) test_vars, world) prog" where
  "test_loop T criterion [] v = return v"
| "test_loop T criterion (batch # rest) v =
     bind_prog (test_batch T criterion batch v) (test_loop T criterion rest)"

definition test ::
  "('f, 'x, 'p, 'b, 'g, 'o) torch \<Rightarrow> 'f loader \<Rightarrow> ('p, 'b, 'g, 'o) learner \<Rightarrow>
   (real list list \<Rightarrow> nat list \<Rightarrow> error + real) \<Rightarrow>
   (('p, 'b, 'g, 'o) learner, world) prog" where
  "test T test_loader L criterion =
     (let n = length (samples (dataset test_loader)) in
      bind_prog (iterate T test_loader) (\<lambda>batches.
      bind_prog (test_loop T criterion batches
                   \<lparr>ev_learner = L\<lparr>training := False\<rparr>, test_loss = 0, correct = 0\<rparr>) (\<lambda>v.
      if n = 0 then raise ZeroDivisionError
      else bind_prog (emit (Print_Test (test_loss v / real n) (correct v) n
                              (100 * real (correct v) / real n))) (\<lambda>_.
           bind_prog (emit Print_TestElapsed) (\<lambda>_.
           return (ev_learner v))))))"

section \<open>The model registry\<close>

datatype model_class =
    ImageNet_Resnet18
  | ImageNet_Resnet34
  | ImageNet_Resnet50
  | ImageNet_Resnet101
  | ImageNet_Resnet152

text \<open>The constructor of each class: the call of \<^verbatim>\<open>torch.hub.load\<close> it makes.\<close>

fun model_init :: "model_class \<Rightarrow> hub_call" where
  "model_init ImageNet_Resnet18 =
     \<lparr>repo = ''pytorch/vision:v0.6.0'', entry = ''resnet18'', pretrained = False,
      num_classes = 200\<rparr>"
| "model_init ImageNet_Resnet34 =
     \<lparr>repo = ''pytorch/vision:v0.6.0'', entry = ''resnet34'', pretrained = False,
      num_classes = 200\<rparr>"
| "model_init ImageNet_Resnet50 =
     \<lparr>repo = ''pytorch/vision:v0.6.0'', entry = ''resnet50'', pretrained = False,
      num_classes = 200\<rparr>"
| "model_init ImageNet_Resnet101 =
     \<lparr>repo = ''pytorch/vision:v0.6.0'', entry = ''resnet101'', pretrained = False,
      num_classes = 200\<rparr>"
| "model_init ImageNet_Resnet152 =
     \<lparr>repo = ''pytorch/vision:v0.6.0'', entry = ''resnet152'', pretrained = False,
      num_classes = 200\<rparr>"

definition MODEL_MAP :: "(string \<times> model_class) list" where
  "MODEL_MAP =
     [(''resnet18'', ImageNet_Resnet18),
      (''resnet34'', ImageNet_Resnet34),
      (''resnet50'', ImageNet_Resnet50),
      (''resnet101'', ImageNet_Resnet101),
      (''resnet152'', ImageNet_Resnet152)]"

section \<open>The command line\<close>

text \<open>
  \<open>cli\<close> is what the user wrote for each option the parser declares (\<open>None\<close>: the option
  is absent), after the conversion its \<^verbatim>\<open>type=\<close> asks for. \<open>args\<close> is the namespace that
  \<^verbatim>\<open>parse_args\<close> returns. The parser declares no other option.
\<close>

record cli =
  cli_data :: "string option"
  cli_batch_size :: "int option"
  cli_test_batch_size :: "int option"
  cli_epochs :: "int option"
  cli_lr :: "real option"
  cli_no_cuda :: bool
  cli_gpu_num :: "string option"
  cli_model :: "string option"

record args =
  data :: string
  batch_size :: int
  test_batch_size :: int
  epochs :: int
  lr :: real
  no_cuda :: bool
  gpu_num :: string
  model :: string

text \<open>
  A value of \<^verbatim>\<open>--model\<close> outside \<^verbatim>\<open>choices\<close> is refused when the option is read; that
  the required \<^verbatim>\<open>--data\<close> is missing is found after all options are read.
\<close>

definition namespace :: "cli \<Rightarrow> string \<Rightarrow> string \<Rightarrow> args" where
  "namespace c d m =
     \<lparr>data = d,
      batch_size = (case cli_batch_size c of None \<Rightarrow> 128 | Some n \<Rightarrow> n),
      test_batch_size = (case cli_test_batch_size c of None \<Rightarrow> 1000 | Some n \<Rightarrow> n),
      epochs = (case cli_epochs c of None \<Rightarrow> 10 | Some n \<Rightarrow> n),
      lr = (case cli_lr c of None \<Rightarrow> 0.1 | Some r \<Rightarrow> r),
      no_cuda = cli_no_cuda c,
      gpu_num = (case cli_gpu_num c of None \<Rightarrow> ''0'' | Some g \<Rightarrow> g),
      model = m\<rparr>"

definition parse_args :: "cli \<Rightarrow> error + args" where
  "parse_args c =
     (case cli_model c of
        Some m \<Rightarrow>
          if m \<in> set (map fst MODEL_MAP) then
            (case cli_data c of
               None \<Rightarrow> Inl (MissingRequired ''--data'')
             | Some d \<Rightarrow> Inr (namespace c d m))
          else Inl (InvalidChoice m (map fst MODEL_MAP))
      | None \<Rightarrow>
          (case cli_data c of
             None \<Rightarrow> Inl (MissingRequired ''--data'')
           | Some d \<Rightarrow> Inr (namespace c d ''resnet18'')))"

section \<open>The statements of main\<close>

subsection \<open>Environment, flags and seeds\<close>

definition set_environ :: "string \<Rightarrow> string \<Rightarrow> (unit, world) prog" where
  "set_environ k v w =
     (Inr (), w\<lparr>environ := (environ w)(k \<mapsto> v), trace := trace w @ [SetEnviron k v]\<rparr>)"

definition set_cudnn_deterministic :: "bool \<Rightarrow> (unit, world) prog" where
  "set_cudnn_deterministic b w =
     (Inr (), w\<lparr>cudnn_deterministic := b, trace := trace w @ [SetCudnn ''deterministic'' b]\<rparr>)"

definition set_cudnn_benchmark :: "bool \<Rightarrow> (unit, world) prog" where
  "set_cudnn_benchmark b w =
     (Inr (), w\<lparr>cudnn_benchmark := b, trace := trace w @ [SetCudnn ''benchmark'' b]\<rparr>)"

definition torch_manual_seed :: "int \<Rightarrow> (unit, world) prog" where
  "torch_manual_seed v w =
     (Inr (), w\<lparr>rng := (rng w)\<lparr>torch_gen := Seeded v 0\<rparr>,
                trace := trace w @ [SeedCall ''torch.manual_seed'' v]\<rparr>)"

definition torch_cuda_manual_seed_all :: "int \<Rightarrow> (unit, world) prog" where
  "torch_cuda_manual_seed_all v w =
     (Inr (), w\<lparr>rng := (rng w)\<lparr>cuda_gen := Seeded v 0\<rparr>,
                trace := trace w @ [SeedCall ''torch.cuda.manual_seed_all'' v]\<rparr>)"

definition random_seed :: "int \<Rightarrow> (unit, world) prog" where
  "random_seed v w =
     (Inr (), w\<lparr>rng := (rng w)\<lparr>py_gen := Seeded v 0\<rparr>,
                trace := trace w @ [SeedCall ''random.seed'' v]\<rparr>)"

definition np_random_seed :: "int \<Rightarrow> (unit, world) prog" where
  "np_random_seed v w =
     (Inr (), w\<lparr>rng := (rng w)\<lparr>np_gen := Seeded v 0\<rparr>,
                trace := trace w @ [SeedCall ''np.random.seed'' v]\<rparr>)"

definition get_use_cuda :: "'f host \<Rightarrow> args \<Rightarrow> (bool, world) prog" where
  "get_use_cuda H a w = (Inr (\<not> no_cuda a \<and> cuda_is_available H (environ w)), w)"

subsection \<open>Keyword arguments and loaders\<close>

datatype kwarg = IntArg int | BoolArg bool

definition cuda_kwargs :: "string \<rightharpoonup> kwarg" where
  "cuda_kwargs =
     [''num_workers'' \<mapsto> IntArg 2, ''pin_memory'' \<mapsto> BoolArg True, ''shuffle'' \<mapsto> BoolArg True]"

definition train_kwargs :: "args \<Rightarrow> bool \<Rightarrow> (string \<rightharpoonup> kwarg)" where
  "train_kwargs a use_cuda =
     (if use_cuda then [''batch_size'' \<mapsto> IntArg (batch_size a)] ++ cuda_kwargs
      else [''batch_size'' \<mapsto> IntArg (batch_size a)])"

definition test_kwargs :: "args \<Rightarrow> bool \<Rightarrow> (string \<rightharpoonup> kwarg)" where
  "test_kwargs a use_cuda =
     (if use_cuda then [''batch_size'' \<mapsto> IntArg (test_batch_size a)] ++ cuda_kwargs
      else [''batch_size'' \<mapsto> IntArg (test_batch_size a)])"

text \<open>
  \<^verbatim>\<open>torch.utils.data.DataLoader(dataset, **kwargs)\<close>: a keyword that is not given has the
  library's default (\<^verbatim>\<open>batch_size=1\<close>, \<^verbatim>\<open>shuffle=False\<close>, \<^verbatim>\<open>num_workers=0\<close>,
  \<^verbatim>\<open>pin_memory=False\<close>); a batch size that is not positive is a ValueError.
\<close>

definition kw_int :: "(string \<rightharpoonup> kwarg) \<Rightarrow> string \<Rightarrow> int \<Rightarrow> int" where
  "kw_int kw k d = (case kw k of Some (IntArg n) \<Rightarrow> n | _ \<Rightarrow> d)"

definition kw_bool :: "(string \<rightharpoonup> kwarg) \<Rightarrow> string \<Rightarrow> bool \<Rightarrow> bool" where
  "kw_bool kw k d = (case kw k of Some (BoolArg b) \<Rightarrow> b | _ \<Rightarrow> d)"

definition DataLoader :: "'f dataset \<Rightarrow> (string \<rightharpoonup> kwarg) \<Rightarrow> ('f loader, world) prog" where
  "DataLoader ds kw =
     bind_prog (emit (DataLoader_call (kw_int kw ''batch_size'' 1) (kw_bool kw ''shuffle'' False)))
       (\<lambda>_. if kw_int kw ''batch_size'' 1 \<le> 0 then raise ValueError
             else return \<lparr>dataset = ds,
                          loader_batch_size = nat (kw_int kw ''batch_size'' 1),
                          loader_shuffle = kw_bool kw ''shuffle'' False,
                          loader_num_workers = nat (kw_int kw ''num_workers'' 0),
                          loader_pin_memory = kw_bool kw ''pin_memory'' False\<rparr>)"

text \<open>
  \<^verbatim>\<open>datasets.ImageFolder(os.path.join(args.data, name), transform)\<close>: a directory that
  cannot be read is a FileNotFoundError, one with no image a RuntimeError.
\<close>

definition path_join :: "string \<Rightarrow> string \<Rightarrow> string" where
  "path_join a b = (if a = [] \<or> last a = CHR ''/'' then a @ b else a @ ''/'' @ b)"

definition ImageFolder :: "'f host \<Rightarrow> string \<Rightarrow> transform \<Rightarrow> ('f dataset, world) prog" where
  "ImageFolder H path tr =
     bind_prog (emit (ImageFolder_call path))
       (\<lambda>_. case image_folder H path of
               None \<Rightarrow> raise (FileNotFoundError path)
             | Some [] \<Rightarrow> raise RuntimeError
             | Some (x # xs) \<Rightarrow> return \<lparr>samples = x # xs, transform = tr\<rparr>)"

subsection \<open>Model, optimizer and schedule\<close>

text \<open>
  \<^verbatim>\<open>MODEL_MAP[args.model]()\<close> followed by \<^verbatim>\<open>optim.Adadelta(model.parameters(), lr=args.lr)\<close>,
  which refuses a negative learning rate.
\<close>

definition construct_model ::
  "('f, 'x, 'p, 'b, 'g, 'o) torch \<Rightarrow> string \<Rightarrow> ('p \<times> 'b \<times> 'g, world) prog" where
  "construct_model T name =
     (case map_of MODEL_MAP name of
        None \<Rightarrow> raise (KeyError name)
      | Some c \<Rightarrow>
          bind_prog (emit (HubLoad (model_init c)))
            (\<lambda>_ w. let (m, r) = hub_load T (model_init c) (rng w) in (Inr m, w\<lparr>rng := r\<rparr>)))"

definition Adadelta ::
  "('f, 'x, 'p, 'b, 'g, 'o) torch \<Rightarrow> 'p \<times> 'b \<times> 'g \<Rightarrow> real \<Rightarrow>
   (('p, 'b, 'g, 'o) learner, world) prog" where
  "Adadelta T m r =
     (case m of (p, b, g) \<Rightarrow>
        if r < 0 then raise ValueError
        else return \<lparr>params = p, buffers = b, training = True, grads = g,
                     opt_state = adadelta_init T p, opt_lr = r\<rparr>)"

text \<open>
  Modelled from the spec: \<^verbatim>\<open>torch.optim.lr_scheduler.StepLR\<close> is library code, not in the
  sources. Section 4.5 of the specification: the state is the current learning rate, and
  \<^verbatim>\<open>step()\<close> multiplies the rate by a fixed decay factor every call. The program builds it
  with \<^verbatim>\<open>step_size=1\<close> and \<^verbatim>\<open>gamma=0.7\<close>; with a larger step size the factor applies at
  every \<open>step_size\<close>-th call.
\<close>

record scheduler =
  step_size :: nat
  gamma :: real
  last_epoch :: nat

definition StepLR :: "nat \<Rightarrow> real \<Rightarrow> scheduler" where
  "StepLR n g = \<lparr>step_size = n, gamma = g, last_epoch = 0\<rparr>"

definition scheduler_step ::
  "scheduler \<Rightarrow> ('p, 'b, 'g, 'o) learner \<Rightarrow> scheduler \<times> ('p, 'b, 'g, 'o) learner" where
  "scheduler_step sch L =
     (sch\<lparr>last_epoch := Suc (last_epoch sch)\<rparr>,
      L\<lparr>opt_lr := (if Suc (last_epoch sch) mod step_size sch = 0
                   then opt_lr L * gamma sch else opt_lr L)\<rparr>)"

section \<open>main\<close>

record ('f, 'p, 'b, 'g, 'o) session =
  train_loader :: "'f loader"
  test_loader :: "'f loader"
  the_learner :: "('p, 'b, 'g, 'o) learner"
  the_scheduler :: scheduler

text \<open>The statements of \<^verbatim>\<open>main\<close> from the environment variables to the scheduler.\<close>

definition main_setup ::
  "('f, 'x, 'p, 'b, 'g, 'o) torch \<Rightarrow> 'f host \<Rightarrow> args \<Rightarrow>
   (('f, 'p, 'b, 'g, 'o) session, world) prog" where
  "main_setup T H a =
     bind_prog (set_environ ''CUDA_DEVICE_ORDER'' ''PCI_BUS_ID'') (\<lambda>_.
     bind_prog (set_environ ''CUDA_VISIBLE_DEVICES'' (gpu_num a)) (\<lambda>_.
     bind_prog (get_use_cuda H a) (\<lambda>use_cuda.
     bind_prog (set_cudnn_deterministic True) (\<lambda>_.
     bind_prog (set_cudnn_benchmark False) (\<lambda>_.
     bind_prog (torch_manual_seed 42) (\<lambda>_.
     bind_prog (torch_cuda_manual_seed_all 42) (\<lambda>_.
     bind_prog (random_seed 42) (\<lambda>_.
     bind_prog (np_random_seed 42) (\<lambda>_.
     bind_prog (emit (Print_Device (if use_cuda then ''cuda'' else ''cpu''))) (\<lambda>_.
     bind_prog (if use_cuda then
                  (case py_int H (gpu_num a) of
                     None \<Rightarrow> raise ValueError
                   | Some n \<Rightarrow> emit (Print_VGA n (get_device_name H)))
                else return ()) (\<lambda>_.
     bind_prog (ImageFolder H (path_join (data a) ''train'') TrainTransform) (\<lambda>train_set.
     bind_prog (ImageFolder H (path_join (data a) ''val'') TestTransform) (\<lambda>test_set.
     bind_prog (DataLoader train_set (train_kwargs a use_cuda)) (\<lambda>tl.
     bind_prog (DataLoader test_set (test_kwargs a use_cuda)) (\<lambda>vl.
     bind_prog (construct_model T (model a)) (\<lambda>m.
     bind_prog (Adadelta T m (lr a)) (\<lambda>L.
     return \<lparr>train_loader = tl, test_loader = vl, the_learner = L,
             the_scheduler = StepLR 1 0.7\<rparr>)))))))))))))))))"

text \<open>The loop over \<^verbatim>\<open>range(1, args.epochs + 1)\<close>.\<close>

fun epoch_loop ::
  "('f, 'x, 'p, 'b, 'g, 'o) torch \<Rightarrow> int list \<Rightarrow> ('f, 'p, 'b, 'g, 'o) session \<Rightarrow>
   (('f, 'p, 'b, 'g, 'o) session, world) prog" where
  "epoch_loop T [] S = return S"
| "epoch_loop T (epoch # rest) S =
     bind_prog (emit (Print_Epoch epoch)) (\<lambda>_.
     bind_prog (train T (train_loader S) (the_learner S) CrossEntropyLoss_sum) (\<lambda>L1.
     bind_prog (test T (test_loader S) L1 CrossEntropyLoss_sum) (\<lambda>L2.
     bind_prog (emit SchedulerStep) (\<lambda>_.
     epoch_loop T rest
       (S\<lparr>the_learner := snd (scheduler_step (the_scheduler S) L2),
          the_scheduler := fst (scheduler_step (the_scheduler S) L2)\<rparr>)))))"

text \<open>
  \<^verbatim>\<open>main\<close> returns nothing; \<open>run\<close> is its body and returns the local variables at the end,
  so that theorems can speak about them.
\<close>

definition run ::
  "('f, 'x, 'p, 'b, 'g, 'o) torch \<Rightarrow> 'f host \<Rightarrow> cli \<Rightarrow>
   (('f, 'p, 'b, 'g, 'o) session, world) prog" where
  "run T H c =
     bind_prog (lift_result (parse_args c)) (\<lambda>a.
     bind_prog (main_setup T H a) (\<lambda>S.
     epoch_loop T [1..epochs a] S))"

definition main :: "('f, 'x, 'p, 'b, 'g, 'o) torch \<Rightarrow> 'f host \<Rightarrow> cli \<Rightarrow> (unit, world) prog" where
  "main T H c = bind_prog (run T H c) (\<lambda>_. return ())"

text \<open>The world when the process starts: nothing has run yet.\<close>

definition process_start :: "(string \<rightharpoonup> string) \<Rightarrow> rngs \<Rightarrow> world" where
  "process_start env r =
     \<lparr>environ = env, cudnn_deterministic = False, cudnn_benchmark = False, rng = r,
      trace = []\<rparr>"

section \<open>A small instance\<close>

text \<open>
  A network with one weight \<open>p\<close> and two classes, used to run the definitions on concrete
  inputs: the logits of every input are \<open>[p, 0]\<close>, and every optimizer step adds one to
  the weight. The machine has no accelerator and two directories of images.
\<close>

definition toy_torch :: "(real, real, nat, unit, unit, unit) torch" where
  "toy_torch =
     \<lparr>forward = (\<lambda>m p b xs. map (\<lambda>x. [real p, 0]) xs),
      track_stats = (\<lambda>p b xs. b),
      zero_grad = (\<lambda>g. g),
      backward = (\<lambda>p b xs ts g. g),
      adadelta_init = (\<lambda>p. ()),
      adadelta_step = (\<lambda>r os g p. (os, Suc p)),
      rand_keys = (\<lambda>r. ((\<lambda>i. 0), r)),
      train_transform = (\<lambda>r f. (f, r)),
      test_transform = (\<lambda>f. f),
      hub_load = (\<lambda>c r. ((0, (), ()), r))\<rparr>"

definition toy_host :: "real host" where
  "toy_host =
     \<lparr>cuda_is_available = (\<lambda>env. False),
      get_device_name = ''none'',
      image_folder = (\<lambda>path. if path = ''d/train'' then Some [(1, 1), (2, 1)]
                              else if path = ''d/val'' then Some [(3, 0), (4, 1)]
                              else None),
      py_int = (\<lambda>s. if s = ''0'' then Some 0 else None)\<rparr>"

definition toy_learner :: "(nat, unit, unit, unit) learner" where
  "toy_learner =
     \<lparr>params = 0, buffers = (), training = True, grads = (), opt_state = (), opt_lr = 0.1\<rparr>"

definition toy_rngs :: rngs where
  "toy_rngs = \<lparr>torch_gen = Entropy 1, cuda_gen = Entropy 2, py_gen = Entropy 3, np_gen = Entropy 4\<rparr>"

definition toy_cli :: cli where
  "toy_cli =
     \<lparr>cli_data = Some ''d'', cli_batch_size = Some 1, cli_test_batch_size = None,
      cli_epochs = Some 1, cli_lr = None, cli_no_cuda = True, cli_gpu_num = None,
      cli_model = None\<rparr>"

section \<open>The quantities the claims name\<close>

text \<open>
  These definitions are not in the program: they say, in the words of the specification,
  what the loops are claimed to compute, and the theorems compare them with the loops.
  \<open>eval_logits\<close> pairs each label of a batch with the row of logits the model gives its
  input in evaluation mode; \<open>summed_loss\<close> is the total of the per-sample losses of a
  pass, \<open>correct_count\<close> the number of samples whose arg-max class is their label.
\<close>

definition eval_logits ::
  "('f, 'x, 'p, 'b, 'g, 'o) torch \<Rightarrow> ('p, 'b, 'g, 'o) learner \<Rightarrow> ('x \<times> nat) list \<Rightarrow>
   (real list \<times> nat) list" where
  "eval_logits T L batch = zip (forward T False (params L) (buffers L) (map fst batch)) (map snd batch)"

definition summed_loss ::
  "('f, 'x, 'p, 'b, 'g, 'o) torch \<Rightarrow> ('p, 'b, 'g, 'o) learner \<Rightarrow> ('x \<times> nat) list list \<Rightarrow> real" where
  "summed_loss T L batches =
     sum_list (map (\<lambda>batch. sum_list (map (\<lambda>(row, t). cross_entropy row t) (eval_logits T L batch))) batches)"

definition correct_count ::
  "('f, 'x, 'p, 'b, 'g, 'o) torch \<Rightarrow> ('p, 'b, 'g, 'o) learner \<Rightarrow> ('x \<times> nat) list list \<Rightarrow> nat" where
  "correct_count T L batches =
     sum_list (map (\<lambda>batch. length (filter (\<lambda>(row, t). argmax row = t) (eval_logits T L batch))) batches)"

definition toy_val_loader :: "real loader" where
  "toy_val_loader =
     \<lparr>dataset = \<lparr>samples = [(3, 0), (4, 1)], transform = TestTransform\<rparr>,
      loader_batch_size = 1, loader_shuffle = False, loader_num_workers = 0,
      loader_pin_memory = False\<rparr>"

section \<open>The start of main, cut at the device banner\<close>

text \<open>
  Names for the parts of \<open>main_setup\<close>: whether the accelerator is used, the world after
  the statements up to the banner (none of them can fail), and the statements after it.
\<close>

definition seeded_world :: "'f host \<Rightarrow> args \<Rightarrow> world \<Rightarrow> world" where
  "seeded_world H a w =
     \<lparr>environ = (environ w)(''CUDA_DEVICE_ORDER'' \<mapsto> ''PCI_BUS_ID'',
                               ''CUDA_VISIBLE_DEVICES'' \<mapsto> gpu_num a),
      cudnn_deterministic = True,
      cudnn_benchmark = False,
      rng = \<lparr>torch_gen = Seeded 42 0, cuda_gen = Seeded 42 0, py_gen = Seeded 42 0,
             np_gen = Seeded 42 0\<rparr>,
      trace = trace w @
        [SetEnviron ''CUDA_DEVICE_ORDER'' ''PCI_BUS_ID'',
         SetEnviron ''CUDA_VISIBLE_DEVICES'' (gpu_num a),
         SetCudnn ''deterministic'' True,
         SetCudnn ''benchmark'' False,
         SeedCall ''torch.manual_seed'' 42,
         SeedCall ''torch.cuda.manual_seed_all'' 42,
         SeedCall ''random.seed'' 42,
         SeedCall ''np.random.seed'' 42,
         Print_Device (if \<not> no_cuda a \<and> cuda_is_available H
                            ((environ w)(''CUDA_DEVICE_ORDER'' \<mapsto> ''PCI_BUS_ID'',
                               ''CUDA_VISIBLE_DEVICES'' \<mapsto> gpu_num a))
                       then ''cuda'' else ''cpu'')]\<rparr>"

definition use_cuda :: "'f host \<Rightarrow> args \<Rightarrow> world \<Rightarrow> bool" where
  "use_cuda H a w \<longleftrightarrow>
     \<not> no_cuda a \<and> cuda_is_available H
        ((environ w)(''CUDA_DEVICE_ORDER'' \<mapsto> ''PCI_BUS_ID'',
                     ''CUDA_VISIBLE_DEVICES'' \<mapsto> gpu_num a))"

definition after_banner ::
  "('f, 'x, 'p, 'b, 'g, 'o) torch \<Rightarrow> 'f host \<Rightarrow> args \<Rightarrow> bool \<Rightarrow>
   (('f, 'p, 'b, 'g, 'o) session, world) prog" where
  "after_banner T H a uc =
     bind_prog (if uc then
                  (case py_int H (gpu_num a) of
                     None \<Rightarrow> raise ValueError
                   | Some n \<Rightarrow> emit (Print_VGA n (get_device_name H)))
                else return ()) (\<lambda>_.
     bind_prog (ImageFolder H (path_join (data a) ''train'') TrainTransform) (\<lambda>train_set.
     bind_prog (ImageFolder H (path_join (data a) ''val'') TestTransform) (\<lambda>test_set.
     bind_prog (DataLoader train_set (train_kwargs a uc)) (\<lambda>tl.
     bind_prog (DataLoader test_set (test_kwargs a uc)) (\<lambda>vl.
     bind_prog (construct_model T (model a)) (\<lambda>m.
     bind_prog (Adadelta T m (lr a)) (\<lambda>L.
     return \<lparr>train_loader = tl, test_loader = vl, the_learner = L,
             the_scheduler = StepLR 1 0.7\<rparr>)))))))"

definition toy_gpu_host :: "real host" where
  "toy_gpu_host = toy_host\<lparr>cuda_is_available := (\<lambda>env. True)\<rparr>"

section \<open>Kinds of effects\<close>

text \<open>
  The effects a training epoch, an evaluation pass, the epoch loop and the construction of
  data sets, loaders and model can leave in the trace; \<open>appends P m\<close> says that the
  statement \<open>m\<close>, whatever its result, only adds effects of kind \<open>P\<close> to the trace.
\<close>

fun training_event :: "event \<Rightarrow> bool" where
  "training_event (PbarOpen n) = True"
| "training_event (PbarUpdate n) = True"
| "training_event (PbarPostfix x) = True"
| "training_event Print_TrainElapsed = True"
| "training_event e = False"

fun evaluation_event :: "event \<Rightarrow> bool" where
  "evaluation_event (Print_Test l k n p) = True"
| "evaluation_event Print_TestElapsed = True"
| "evaluation_event e = False"

fun epoch_event :: "event \<Rightarrow> bool" where
  "epoch_event (Print_Epoch n) = True"
| "epoch_event SchedulerStep = True"
| "epoch_event e = (training_event e \<or> evaluation_event e)"

fun construction_event :: "event \<Rightarrow> bool" where
  "construction_event (Print_VGA n s) = True"
| "construction_event (ImageFolder_call p) = True"
| "construction_event (DataLoader_call n b) = True"
| "construction_event (HubLoad c) = True"
| "construction_event e = False"

definition appends :: "(event \<Rightarrow> bool) \<Rightarrow> ('a, world) prog \<Rightarrow> bool" where
  "appends P m \<longleftrightarrow> (\<forall>w. \<exists>evs. trace (snd (m w)) = trace w @ evs \<and> list_all P evs)"

section \<open>The schedule over a run\<close>

text \<open>
  \<open>step_times n\<close> applies \<^verbatim>\<open>scheduler.step()\<close> \<open>n\<close> times. \<open>epochs_trace es evs\<close> reads a trace
  as a sequence of epochs with the numbers \<open>es\<close>: each epoch is its header, the progress
  of its training, the summary of its evaluation and then one scheduler step.
\<close>

primrec step_times ::
  "nat \<Rightarrow> scheduler \<times> ('p, 'b, 'g, 'o) learner \<Rightarrow> scheduler \<times> ('p, 'b, 'g, 'o) learner" where
  "step_times 0 x = x"
| "step_times (Suc n) x = (case step_times n x of (sch, L) \<Rightarrow> scheduler_step sch L)"

fun epochs_trace :: "int list \<Rightarrow> event list \<Rightarrow> bool" where
  "epochs_trace [] evs = (evs = [])"
| "epochs_trace (e # es) evs =
     (case evs of
        Print_Epoch e' # rest \<Rightarrow>
          e' = e \<and>
          (case dropWhile evaluation_event (dropWhile training_event rest) of
             SchedulerStep # rest' \<Rightarrow> epochs_trace es rest'
           | _ \<Rightarrow> False)
      | _ \<Rightarrow> False)"

definition toy_session :: "(real, nat, unit, unit, unit) session" where
  "toy_session =
     \<lparr>train_loader =
        \<lparr>dataset = \<lparr>samples = [(1, 1), (2, 1)], transform = TrainTransform\<rparr>,
         loader_batch_size = 1, loader_shuffle = False, loader_num_workers = 0,
         loader_pin_memory = False\<rparr>,
      test_loader =
        \<lparr>dataset = \<lparr>samples = [(3, 0), (4, 1)], transform = TestTransform\<rparr>,
         loader_batch_size = 1000, loader_shuffle = False, loader_num_workers = 0,
         loader_pin_memory = False\<rparr>,
      the_learner = toy_learner,
      the_scheduler = StepLR 1 0.7\<rparr>"

section \<open>The losses of an epoch of training\<close>

text \<open>The quantities that the reported mean of \<^verbatim>\<open>train\<close> is compared with. \<open>batch_loss\<close> is
  the value \<^verbatim>\<open>criterion(model(data), target)\<close> for the learner as it stands (0 where the
  criterion raises, in which case \<^verbatim>\<open>train\<close> raises too), \<open>after_batch\<close> is the learner after
  the body of the loop (\<^verbatim>\<open>zero_grad\<close>, forward, \<^verbatim>\<open>backward\<close>, \<^verbatim>\<open>optimizer.step\<close>), and
  \<open>losses_along\<close> lists the losses of the batches in the order of the loop, each computed
  with the parameters that the earlier batches have left.\<close>

definition batch_loss ::
  "('f, 'x, 'p, 'b, 'g, 'o) torch \<Rightarrow> (real list list \<Rightarrow> nat list \<Rightarrow> error + real) \<Rightarrow>
   ('p, 'b, 'g, 'o) learner \<Rightarrow> ('x \<times> nat) list \<Rightarrow> real" where
  "batch_loss T criterion L batch =
     (case criterion (forward T (training L) (params L) (buffers L) (map fst batch))
             (map snd batch) of
        Inl e \<Rightarrow> 0
      | Inr loss \<Rightarrow> loss)"

definition after_batch ::
  "('f, 'x, 'p, 'b, 'g, 'o) torch \<Rightarrow> ('p, 'b, 'g, 'o) learner \<Rightarrow> ('x \<times> nat) list \<Rightarrow>
   ('p, 'b, 'g, 'o) learner" where
  "after_batch T L batch =
     (let L1 = L\<lparr>grads := zero_grad T (grads L)\<rparr>;
          L2 = snd (call_model T L1 (map fst batch));
          L3 = L2\<lparr>grads := backward T (params L1) (buffers L1) (map fst batch)
                               (map snd batch) (grads L2)\<rparr>;
          st = adadelta_step T (opt_lr L3) (opt_state L3) (grads L3) (params L3)
      in L3\<lparr>params := snd st, opt_state := fst st\<rparr>)"

fun losses_along ::
  "('f, 'x, 'p, 'b, 'g, 'o) torch \<Rightarrow> (real list list \<Rightarrow> nat list \<Rightarrow> error + real) \<Rightarrow>
   ('p, 'b, 'g, 'o) learner \<Rightarrow> ('x \<times> nat) list list \<Rightarrow> real list" where
  "losses_along T criterion L [] = []"
| "losses_along T criterion L (batch # rest) =
     batch_loss T criterion L batch # losses_along T criterion (after_batch T L batch) rest"

text \<open>A training set of two samples, loaded in batches of \<open>n\<close>, and a backend whose
  network ignores its parameters (its logits are a function of the input alone).\<close>

definition toy_train_loader :: "nat \<Rightarrow> real loader" where
  "toy_train_loader n =
     \<lparr>dataset = \<lparr>samples = [(1, 1), (2, 1)], transform = TrainTransform\<rparr>,
      loader_batch_size = n, loader_shuffle = False, loader_num_workers = 0,
      loader_pin_memory = False\<rparr>"

definition toy_frozen_torch :: "(real, real, nat, unit, unit, unit) torch" where
  "toy_frozen_torch = toy_torch\<lparr>forward := (\<lambda>m p b xs. map (\<lambda>x. [x, 0]) xs)\<rparr>"

section \<open>Basic facts\<close>

subsection \<open>Sequencing\<close>

lemma bind_return [simp]: "bind_prog (return a) f = f a"
  by (rule ext) (simp add: bind_prog_def return_def)

lemma bind_raise [simp]: "bind_prog (raise e) f = raise e"
  by (rule ext) (simp add: bind_prog_def raise_def)

lemma bind_lift_Inr [simp]: "bind_prog (lift_result (Inr a)) f = f a"
  by (rule ext) (simp add: bind_prog_def lift_result_def)

lemma bind_lift_Inl [simp]: "bind_prog (lift_result (Inl e)) f = raise e"
  by (rule ext) (simp add: bind_prog_def lift_result_def raise_def)

lemma bind_emit [simp]: "bind_prog (emit e) f w = f () (w\<lparr>trace := trace w @ [e]\<rparr>)"
  by (simp add: bind_prog_def emit_def)

lemma return_eq [simp]: "return a w = (r, w') \<longleftrightarrow> r = Inr a \<and> w' = w"
  by (auto simp: return_def)

lemma raise_eq [simp]: "raise e w = (r, w') \<longleftrightarrow> r = Inl e \<and> w' = w"
  by (auto simp: raise_def)

lemma bind_prog_Inr:
  "bind_prog m f w = (Inr b, w') \<longleftrightarrow> (\<exists>a w1. m w = (Inr a, w1) \<and> f a w1 = (Inr b, w'))"
  by (auto simp: bind_prog_def split: prod.splits sum.splits)

subsection \<open>Batches\<close>

lemma chunks_Nil [simp]: "chunks n [] = []"
  by (simp add: chunks.simps)

lemma chunks_zero [simp]: "chunks 0 xs = []"
  by (simp add: chunks.simps)

lemma chunks_Cons: "0 < n \<Longrightarrow> xs \<noteq> [] \<Longrightarrow> chunks n xs = take n xs # chunks n (drop n xs)"
  by (subst chunks.simps) simp

lemma concat_chunks: "0 < n \<Longrightarrow> concat (chunks n xs) = xs"
proof (induction n xs rule: chunks.induct)
  case (1 n xs)
  show ?case
  proof (cases "xs = []")
    case True
    then show ?thesis by simp
  next
    case False
    with "1.prems" have "concat (chunks n (drop n xs)) = drop n xs"
      using "1.IH" by simp
    with False "1.prems" show ?thesis by (simp add: chunks_Cons)
  qed
qed

lemma div_step:
  assumes "0 < n" "0 < (l::nat)"
  shows "(l + n - 1) div n = Suc ((l - n + n - 1) div n)"
proof (cases "l < n")
  case True
  with assms have "n \<le> l + n - 1" "l + n - 1 < 2 * n" by auto
  then have "(l + n - 1) div n = 1"
    by (intro div_nat_eqI) auto
  moreover from True assms have "(l - n + n - 1) div n = 0" by simp
  ultimately show ?thesis by simp
next
  case False
  with assms have a: "l + n - 1 = (l - 1) + n" and b: "l - n + n - 1 = l - 1" by arith+
  have "(l + n - 1) div n = ((l - 1) + n) div n" by (simp only: a)
  also have "\<dots> = (l - 1) div n + 1" using assms(1) by (intro div_add_self2) simp
  also have "\<dots> = Suc ((l - 1) div n)" by simp
  finally show ?thesis by (simp only: b)
qed

text \<open>The number of batches of a pass is what \<^verbatim>\<open>len(loader)\<close> computes.\<close>

lemma length_chunks: "length (chunks n xs) = (length xs + n - 1) div n"
proof (induction n xs rule: chunks.induct)
  case (1 n xs)
  show ?case
  proof (cases "n = 0 \<or> xs = []")
    case True
    then show ?thesis by (cases n) auto
  next
    case False
    then have "length (chunks n (drop n xs)) = (length xs - n + n - 1) div n"
      using "1.IH" by simp
    moreover from False have "chunks n xs = take n xs # chunks n (drop n xs)"
      by (simp add: chunks_Cons)
    moreover from False have "(length xs + n - 1) div n = Suc ((length xs - n + n - 1) div n)"
      by (intro div_step) auto
    ultimately show ?thesis by simp
  qed
qed

lemma chunks_nonempty: "b \<in> set (chunks n xs) \<Longrightarrow> b \<noteq> []"
proof (induction n xs rule: chunks.induct)
  case (1 n xs)
  show ?case
  proof (cases "n = 0 \<or> xs = []")
    case True
    with "1.prems" show ?thesis by auto
  next
    case False
    with "1.prems" have "b = take n xs \<or> b \<in> set (chunks n (drop n xs))"
      by (simp add: chunks_Cons)
    with False "1.IH" show ?thesis by auto
  qed
qed

lemma fetch_length: "length (fst (fetch T ds idx r)) = length idx"
  by (induction idx arbitrary: r) (simp_all add: Let_def case_prod_beta)

lemma fetch_labels: "map snd (fst (fetch T ds idx r)) = map (\<lambda>i. snd (samples ds ! i)) idx"
  by (induction idx arbitrary: r) (simp_all add: Let_def case_prod_beta)

lemma sampler_length: "length (fst (sampler T sh n r)) = n"
  by (simp add: sampler_def Let_def split: prod.splits)

lemma iterate_Inr:
  "iterate T ld w = (res, w') \<Longrightarrow>
   \<exists>xs. res = Inr (chunks (loader_batch_size ld) xs) \<and> length xs = length (samples (dataset ld))
      \<and> trace w' = trace w \<and> environ w' = environ w"
  by (auto simp: iterate_def Let_def case_prod_beta fetch_length sampler_length)

lemma iterate_len: "iterate T ld w = (Inr batches, w') \<Longrightarrow> length batches = len_loader ld"
  by (auto dest!: iterate_Inr simp: length_chunks len_loader_def)

section \<open>The progress updates of a training epoch\<close>

text \<open>
  Claim C8. In the loop of \<^verbatim>\<open>train\<close>, the batch with index \<open>batch_idx\<close> flushes a progress
  update (the bar advances by the samples counted since the last flush, and the loss of
  the batch is shown) exactly when that count, the samples of this batch included, exceeds
  2000 or the index is the last one, \<^verbatim>\<open>len(train_loader) - 1\<close>; after a flush the count is
  zero, otherwise it has grown by the size of the batch and nothing is printed. The
  batches of a pass are as many as \<^verbatim>\<open>len(train_loader)\<close> says, so the last index is the
  last batch of the epoch.
\<close>

theorem progress_flush:
  assumes "train_batch T criterion n_batches batch_idx batch v w = (Inr v', w')"
  shows "(2000 < processed_samples v + length batch \<or> int batch_idx = int n_batches - 1 \<longrightarrow>
            (\<exists>loss. trace w' = trace w @ [PbarUpdate (processed_samples v + length batch),
                                          PbarPostfix (loss / real (length batch))])
            \<and> processed_samples v' = 0)
       \<and> (\<not> (2000 < processed_samples v + length batch \<or> int batch_idx = int n_batches - 1) \<longrightarrow>
            trace w' = trace w \<and> processed_samples v' = processed_samples v + length batch)
       \<and> (\<forall>ld w0 w1 batches. iterate T ld w0 = (Inr batches, w1) \<longrightarrow>
            length batches = len_loader ld)"
proof -
  have "\<forall>ld w0 w1 batches. iterate T ld w0 = (Inr batches, w1) \<longrightarrow>
          length batches = len_loader ld"
    by (auto simp: iterate_len)
  moreover have
    "(2000 < processed_samples v + length batch \<or> int batch_idx = int n_batches - 1 \<longrightarrow>
            (\<exists>loss. trace w' = trace w @ [PbarUpdate (processed_samples v + length batch),
                                          PbarPostfix (loss / real (length batch))])
            \<and> processed_samples v' = 0)
       \<and> (\<not> (2000 < processed_samples v + length batch \<or> int batch_idx = int n_batches - 1) \<longrightarrow>
            trace w' = trace w \<and> processed_samples v' = processed_samples v + length batch)"
    using assms
    by (cases "criterion (fst (call_model T
                  ((tv_learner v)\<lparr>grads := zero_grad T (grads (tv_learner v))\<rparr>)
                  (map fst batch))) (map snd batch)")
       (auto simp: train_batch_def Let_def split: prod.splits if_splits)
  ultimately show ?thesis by blast
qed

theorem progress_flush_witness:
  "\<exists>v1 w1 v2 w2.
     train_batch toy_torch CrossEntropyLoss_sum 3 0 [(1, 1)]
       \<lparr>tv_learner = toy_learner, training_loss_sum = 0, processed_samples = 2000\<rparr>
       (process_start Map.empty toy_rngs) = (Inr v1, w1)
     \<and> (\<exists>loss. trace w1 = [PbarUpdate 2001, PbarPostfix (loss / 1)])
     \<and> processed_samples v1 = 0
     \<and> train_batch toy_torch CrossEntropyLoss_sum 3 0 [(1, 1)]
       \<lparr>tv_learner = toy_learner, training_loss_sum = 0, processed_samples = 1999\<rparr>
       (process_start Map.empty toy_rngs) = (Inr v2, w2)
     \<and> trace w2 = [] \<and> processed_samples v2 = 2000"
proof -
  have "\<exists>v1 w1. train_batch toy_torch CrossEntropyLoss_sum 3 0 [(1, 1)]
       \<lparr>tv_learner = toy_learner, training_loss_sum = 0, processed_samples = 2000\<rparr>
       (process_start Map.empty toy_rngs) = (Inr v1, w1)"
    by (simp add: train_batch_def call_model_def toy_torch_def toy_learner_def
        CrossEntropyLoss_sum_def Let_def)
  then obtain v1 w1 where e1: "train_batch toy_torch CrossEntropyLoss_sum 3 0 [(1, 1)]
       \<lparr>tv_learner = toy_learner, training_loss_sum = 0, processed_samples = 2000\<rparr>
       (process_start Map.empty toy_rngs) = (Inr v1, w1)" by blast
  have "\<exists>v2 w2. train_batch toy_torch CrossEntropyLoss_sum 3 0 [(1, 1)]
       \<lparr>tv_learner = toy_learner, training_loss_sum = 0, processed_samples = 1999\<rparr>
       (process_start Map.empty toy_rngs) = (Inr v2, w2)"
    by (simp add: train_batch_def call_model_def toy_torch_def toy_learner_def
        CrossEntropyLoss_sum_def Let_def)
  then obtain v2 w2 where e2: "train_batch toy_torch CrossEntropyLoss_sum 3 0 [(1, 1)]
       \<lparr>tv_learner = toy_learner, training_loss_sum = 0, processed_samples = 1999\<rparr>
       (process_start Map.empty toy_rngs) = (Inr v2, w2)" by blast
  from progress_flush [OF e1] progress_flush [OF e2] e1 e2 show ?thesis
    by (simp add: process_start_def)
qed

section \<open>The evaluation loop\<close>

lemma cross_entropy_nonneg:
  assumes "t < length row"
  shows "0 \<le> cross_entropy row t"
proof -
  have "exp (row ! t) \<in> set (map exp row)"
    using assms by (metis length_map nth_map nth_mem)
  moreover have "\<And>x. x \<in> set (map exp row) \<Longrightarrow> 0 \<le> x" by auto
  ultimately have "exp (row ! t) \<le> sum_list (map exp row)"
    by (rule member_le_sum_list)
  then have "ln (exp (row ! t)) \<le> ln (sum_list (map exp row))"
    by (subst ln_le_cancel_iff) (auto intro: less_le_trans [OF exp_gt_zero])
  then show ?thesis by (simp add: cross_entropy_def)
qed

lemma CrossEntropyLoss_sum_Inr:
  "CrossEntropyLoss_sum output target = Inr l \<longleftrightarrow>
     length output = length target \<and> list_all (\<lambda>(row, t). t < length row) (zip output target) \<and>
     l = sum_list (map (\<lambda>(row, t). cross_entropy row t) (zip output target))"
  by (auto simp: CrossEntropyLoss_sum_def)

lemma CrossEntropyLoss_sum_nonneg:
  assumes "CrossEntropyLoss_sum output target = Inr l"
  shows "0 \<le> l"
proof -
  from assms have a: "list_all (\<lambda>(row, t). t < length row) (zip output target)"
    and l: "l = sum_list (map (\<lambda>(row, t). cross_entropy row t) (zip output target))"
    by (simp_all add: CrossEntropyLoss_sum_Inr)
  have "\<And>x. x \<in> set (map (\<lambda>(row, t). cross_entropy row t) (zip output target)) \<Longrightarrow> 0 \<le> x"
    using a by (auto simp: list_all_iff cross_entropy_nonneg)
  then show ?thesis unfolding l by (rule sum_list_nonneg)
qed

lemma hits_eq:
  "length (filter (\<lambda>(p, t). p = t) (zip (map argmax output) target)) =
   length (filter (\<lambda>(row, t). argmax row = t) (zip output target))"
  by (simp add: zip_map1 filter_map o_def case_prod_unfold)

lemma call_model_eval:
  "\<not> training L \<Longrightarrow> call_model T L xs = (forward T False (params L) (buffers L) xs, L)"
  by (simp add: call_model_def)

lemma test_batch_Inr:
  assumes "test_batch T CrossEntropyLoss_sum batch v w = (Inr v', w')"
    and "\<not> training (ev_learner v)"
  shows "w' = w \<and> ev_learner v' = ev_learner v
       \<and> test_loss v' = test_loss v + summed_loss T (ev_learner v) [batch]
       \<and> correct v' = correct v + correct_count T (ev_learner v) [batch]
       \<and> 0 \<le> summed_loss T (ev_learner v) [batch]
       \<and> correct_count T (ev_learner v) [batch] \<le> length batch"
proof (cases "CrossEntropyLoss_sum (forward T False (params (ev_learner v)) (buffers (ev_learner v)) (map fst batch)) (map snd batch)")
  case (Inl e)
  with assms show ?thesis
    by (simp add: test_batch_def call_model_eval)
next
  case (Inr l)
  have le: "length (filter (\<lambda>(row, t). argmax row = t) (eval_logits T (ev_learner v) batch)) \<le> length batch"
    by (rule order_trans [OF length_filter_le]) (simp add: eval_logits_def)
  from Inr have "0 \<le> l" by (rule CrossEntropyLoss_sum_nonneg)
  moreover from Inr have "l = summed_loss T (ev_learner v) [batch]"
    by (simp add: CrossEntropyLoss_sum_Inr summed_loss_def eval_logits_def)
  ultimately show ?thesis using assms Inr le
    by (auto simp: test_batch_def call_model_eval Let_def hits_eq correct_count_def eval_logits_def)
qed

lemma summed_loss_Cons:
  "summed_loss T L (b # bs) = summed_loss T L [b] + summed_loss T L bs"
  by (simp add: summed_loss_def)

lemma correct_count_Cons:
  "correct_count T L (b # bs) = correct_count T L [b] + correct_count T L bs"
  by (simp add: correct_count_def)

lemma test_loop_Inr:
  assumes "test_loop T CrossEntropyLoss_sum batches v w = (Inr v', w')"
    and "\<not> training (ev_learner v)"
  shows "w' = w \<and> ev_learner v' = ev_learner v
       \<and> test_loss v' = test_loss v + summed_loss T (ev_learner v) batches
       \<and> correct v' = correct v + correct_count T (ev_learner v) batches
       \<and> 0 \<le> summed_loss T (ev_learner v) batches
       \<and> correct_count T (ev_learner v) batches \<le> length (concat batches)"
  using assms
proof (induction batches arbitrary: v w)
  case Nil
  then show ?case by (simp add: summed_loss_def correct_count_def)
next
  case (Cons b bs)
  from Cons.prems(1) obtain v1 w1 where
    s1: "test_batch T CrossEntropyLoss_sum b v w = (Inr v1, w1)" and
    s2: "test_loop T CrossEntropyLoss_sum bs v1 w1 = (Inr v', w')"
    by (auto simp: bind_prog_Inr)
  note h1 = test_batch_Inr [OF s1 Cons.prems(2)]
  from h1 Cons.prems(2) have nt: "\<not> training (ev_learner v1)" by simp
  note h2 = Cons.IH [OF s2 nt]
  from h1 h2 show ?case
    by (simp add: summed_loss_Cons [of T _ b bs] correct_count_Cons [of T _ b bs])
qed


lemma summed_loss_eval [simp]: "summed_loss T (L\<lparr>training := m\<rparr>) batches = summed_loss T L batches"
  by (simp add: summed_loss_def eval_logits_def)

lemma correct_count_eval [simp]: "correct_count T (L\<lparr>training := m\<rparr>) batches = correct_count T L batches"
  by (simp add: correct_count_def eval_logits_def)

lemma test_Inr:
  assumes "test T ld L CrossEntropyLoss_sum w = (Inr L', w')"
  shows "\<exists>batches w1. iterate T ld w = (Inr batches, w1)
       \<and> 0 < length (samples (dataset ld))
       \<and> L' = L\<lparr>training := False\<rparr>
       \<and> w' = w1\<lparr>trace := trace w @
            [Print_Test (summed_loss T L batches / real (length (samples (dataset ld))))
               (correct_count T L batches) (length (samples (dataset ld)))
               (100 * real (correct_count T L batches) / real (length (samples (dataset ld)))),
             Print_TestElapsed]\<rparr>
       \<and> 0 \<le> summed_loss T L batches
       \<and> correct_count T L batches \<le> length (concat batches)"
proof -
  from assms obtain batches w1 v w2 where
    it: "iterate T ld w = (Inr batches, w1)" and
    lp: "test_loop T CrossEntropyLoss_sum batches
           \<lparr>ev_learner = L\<lparr>training := False\<rparr>, test_loss = 0, correct = 0\<rparr> w1 = (Inr v, w2)" and
    fin: "(if length (samples (dataset ld)) = 0 then raise ZeroDivisionError
           else bind_prog (emit (Print_Test (test_loss v / real (length (samples (dataset ld))))
                  (correct v) (length (samples (dataset ld)))
                  (100 * real (correct v) / real (length (samples (dataset ld))))))
                (\<lambda>_. bind_prog (emit Print_TestElapsed) (\<lambda>_. return (ev_learner v)))) w2
          = (Inr L', w')"
    unfolding test_def Let_def bind_prog_Inr by blast
  from test_loop_Inr [OF lp] have
    h: "w2 = w1" "ev_learner v = L\<lparr>training := False\<rparr>"
       "test_loss v = summed_loss T L batches" "correct v = correct_count T L batches"
       "0 \<le> summed_loss T L batches" "correct_count T L batches \<le> length (concat batches)"
    by simp_all
  from iterate_Inr [OF it] have tr: "trace w1 = trace w" by blast
  from fin have n: "0 < length (samples (dataset ld))"
    by (cases "length (samples (dataset ld)) = 0") simp_all
  with fin h tr have "L' = L\<lparr>training := False\<rparr>" and
    "w' = w1\<lparr>trace := trace w @
            [Print_Test (summed_loss T L batches / real (length (samples (dataset ld))))
               (correct_count T L batches) (length (samples (dataset ld)))
               (100 * real (correct_count T L batches) / real (length (samples (dataset ld)))),
             Print_TestElapsed]\<rparr>"
    by (auto simp: emit_def bind_prog_def)
  with it n h show ?thesis by blast
qed

text \<open>
  Claim C6. A pass of \<^verbatim>\<open>test\<close> that returns, over a loader as \<^verbatim>\<open>DataLoader\<close> builds it,
  has seen every sample of a non-empty dataset once and prints one summary line: the mean
  loss is the summed cross-entropy loss of all samples divided by the number of samples,
  and is not negative; the count of correct predictions is the number of samples whose
  arg-max class is their label; the ratio of that count to the number of samples lies
  between 0 and 1, and the line shows it as a percentage.
\<close>

theorem evaluation_metrics:
  assumes "test T ld L CrossEntropyLoss_sum w = (Inr L', w')"
    and "0 < loader_batch_size ld"
  shows "\<exists>batches w1. iterate T ld w = (Inr batches, w1)
       \<and> length (concat batches) = length (samples (dataset ld))
       \<and> 0 < length (samples (dataset ld))
       \<and> trace w' = trace w @
            [Print_Test (summed_loss T L batches / real (length (samples (dataset ld))))
               (correct_count T L batches) (length (samples (dataset ld)))
               (100 * real (correct_count T L batches) / real (length (samples (dataset ld)))),
             Print_TestElapsed]
       \<and> 0 \<le> summed_loss T L batches / real (length (samples (dataset ld)))
       \<and> 0 \<le> real (correct_count T L batches) / real (length (samples (dataset ld)))
       \<and> real (correct_count T L batches) / real (length (samples (dataset ld))) \<le> 1"
proof -
  from test_Inr [OF assms(1)] obtain batches w1 where
    it: "iterate T ld w = (Inr batches, w1)" and
    n: "0 < length (samples (dataset ld))" and
    w': "w' = w1\<lparr>trace := trace w @
            [Print_Test (summed_loss T L batches / real (length (samples (dataset ld))))
               (correct_count T L batches) (length (samples (dataset ld)))
               (100 * real (correct_count T L batches) / real (length (samples (dataset ld)))),
             Print_TestElapsed]\<rparr>" and
    nonneg: "0 \<le> summed_loss T L batches" and
    le: "correct_count T L batches \<le> length (concat batches)"
    by blast
  from iterate_Inr [OF it] obtain xs where
    "batches = chunks (loader_batch_size ld) xs" "length xs = length (samples (dataset ld))"
    by blast
  with assms(2) have len: "length (concat batches) = length (samples (dataset ld))"
    by (simp add: concat_chunks)
  from nonneg have "0 \<le> summed_loss T L batches / real (length (samples (dataset ld)))"
    by simp
  moreover from le len n
  have "real (correct_count T L batches) / real (length (samples (dataset ld))) \<le> 1"
    by simp
  ultimately show ?thesis using it len n w' by auto
qed

lemma upt_2: "[0..<2] = [0, Suc 0]"
  by (simp add: upt_rec)

lemma toy_iterate_val:
  "iterate toy_torch toy_val_loader (process_start Map.empty toy_rngs) = 
    (Inr [[(3, 0)], [(4, 1)]], process_start Map.empty toy_rngs)"
  by (simp add: iterate_def toy_val_loader_def sampler_def upt_2 apply_transform_def
        toy_torch_def chunks.simps process_start_def)


lemma toy_bind_iterate_val: "bind_prog (iterate toy_torch toy_val_loader) f (process_start Map.empty toy_rngs) = f [[(3, 0)], [(4, 1)]] (process_start Map.empty toy_rngs)"
  by (simp add: bind_prog_def toy_iterate_val)


theorem evaluation_metrics_witness:
  "\<exists>L' w'. test toy_torch toy_val_loader toy_learner CrossEntropyLoss_sum
               (process_start Map.empty toy_rngs) = (Inr L', w')
     \<and> 0 < loader_batch_size toy_val_loader
     \<and> trace w' =
         [Print_Test (summed_loss toy_torch toy_learner [[(3, 0)], [(4, 1)]] / 2)
            (correct_count toy_torch toy_learner [[(3, 0)], [(4, 1)]]) 2
            (100 * real (correct_count toy_torch toy_learner [[(3, 0)], [(4, 1)]]) / 2),
          Print_TestElapsed]
     \<and> correct_count toy_torch toy_learner [[(3, 0)], [(4, 1)]] = 1
     \<and> summed_loss toy_torch toy_learner [[(3, 0)], [(4, 1)]] = 2 * ln 2"
proof -
  have "\<exists>L' w'. test toy_torch toy_val_loader toy_learner CrossEntropyLoss_sum
               (process_start Map.empty toy_rngs) = (Inr L', w')"
    by (simp add: test_def Let_def toy_bind_iterate_val,
        simp add: test_batch_def call_model_def toy_learner_def toy_torch_def
          CrossEntropyLoss_sum_def toy_val_loader_def)
  then obtain L' w' where e: "test toy_torch toy_val_loader toy_learner CrossEntropyLoss_sum
               (process_start Map.empty toy_rngs) = (Inr L', w')" by blast
  have b: "0 < loader_batch_size toy_val_loader" by (simp add: toy_val_loader_def)
  have c: "correct_count toy_torch toy_learner [[(3, 0)], [(4, 1)]] = 1"
    by (simp add: correct_count_def eval_logits_def toy_torch_def toy_learner_def)
  have d: "summed_loss toy_torch toy_learner [[(3, 0)], [(4, 1)]] = 2 * ln 2"
    by (simp add: summed_loss_def eval_logits_def toy_torch_def toy_learner_def cross_entropy_def)
  note m = evaluation_metrics [OF e b, unfolded toy_iterate_val]
  from m e b c d show ?thesis
    by (simp add: toy_val_loader_def process_start_def)
qed

section \<open>Evaluation leaves the model alone\<close>

lemma test_batch_pure:
  "\<exists>r. \<forall>w. test_batch T criterion batch v w = (r, w)"
  by (cases "criterion (fst (call_model T (ev_learner v) (map fst batch))) (map snd batch)")
     (auto simp: test_batch_def Let_def case_prod_beta)

lemma test_loop_pure:
  "\<exists>r. \<forall>w. test_loop T criterion batches v w = (r, w)"
proof (induction batches arbitrary: v)
  case Nil
  show ?case by (simp add: return_def)
next
  case (Cons b bs)
  obtain r1 where r1: "\<And>w. test_batch T criterion b v w = (r1, w)"
    using test_batch_pure by blast
  show ?case
  proof (cases r1)
    case (Inl e)
    with r1 show ?thesis by (simp add: bind_prog_def)
  next
    case (Inr v1)
    from Cons.IH [of v1] obtain r2 where "\<And>w. test_loop T criterion bs v1 w = (r2, w)"
      by blast
    with r1 Inr show ?thesis by (simp add: bind_prog_def)
  qed
qed

lemma test_loop_world:
  "test_loop T criterion batches v w = (fst (test_loop T criterion batches v w0), w)"
  using test_loop_pure [of T criterion batches v] by auto

lemma test_batch_frame:
  assumes "test_batch T criterion batch v w = (Inr v', w')" and "\<not> training (ev_learner v)"
  shows "ev_learner v' = ev_learner v"
  using assms
  by (cases "criterion (fst (call_model T (ev_learner v) (map fst batch))) (map snd batch)")
     (auto simp: test_batch_def Let_def call_model_def)

lemma test_loop_frame:
  assumes "test_loop T criterion batches v w = (Inr v', w')" and "\<not> training (ev_learner v)"
  shows "ev_learner v' = ev_learner v"
  using assms
proof (induction batches arbitrary: v w)
  case Nil
  then show ?case by simp
next
  case (Cons b bs)
  from Cons.prems(1) obtain v1 w1 where
    s1: "test_batch T criterion b v w = (Inr v1, w1)" and
    s2: "test_loop T criterion bs v1 w1 = (Inr v', w')"
    by (auto simp: bind_prog_Inr)
  from test_batch_frame [OF s1 Cons.prems(2)] have e: "ev_learner v1 = ev_learner v" .
  with Cons.prems(2) have "\<not> training (ev_learner v1)" by simp
  from Cons.IH [OF s2 this] e show ?case by simp
qed


lemma fetch_test_transform:
  "transform ds = TestTransform \<Longrightarrow>
   fetch T ds idx r =
     (map (\<lambda>i. (test_transform T (fst (samples ds ! i)), snd (samples ds ! i))) idx, r)"
  by (induction idx arbitrary: r) (simp_all add: Let_def case_prod_beta apply_transform_def)

lemma iterate_fixed:
  assumes "\<not> loader_shuffle ld" and "transform (dataset ld) = TestTransform"
  shows "fst (iterate T ld w1) = fst (iterate T ld w)"
  using assms by (simp add: iterate_def sampler_def fetch_test_transform)

lemma test_twice:
  assumes p1: "test T ld L criterion w = (Inr L1, w1)"
  shows "L1 = L\<lparr>training := False\<rparr>
       \<and> (\<exists>l k n pct. trace w1 = trace w @ [Print_Test l k n pct, Print_TestElapsed]
            \<and> (fst (iterate T ld w1) = fst (iterate T ld w) \<longrightarrow>
                 (\<exists>w2. test T ld L1 criterion w1 = (Inr L1, w2)
                     \<and> trace w2 = trace w1 @ [Print_Test l k n pct, Print_TestElapsed])))"
proof -
  let ?n = "length (samples (dataset ld))"
  let ?v0 = "\<lparr>ev_learner = L\<lparr>training := False\<rparr>, test_loss = 0, correct = 0\<rparr>"
  from p1 obtain batches wi v wi' where
    it1: "iterate T ld w = (Inr batches, wi)" and
    lp1: "test_loop T criterion batches ?v0 wi = (Inr v, wi')" and
    fin1: "(if ?n = 0 then raise ZeroDivisionError
           else bind_prog (emit (Print_Test (test_loss v / real ?n) (correct v) ?n
                  (100 * real (correct v) / real ?n)))
                (\<lambda>_. bind_prog (emit Print_TestElapsed) (\<lambda>_. return (ev_learner v)))) wi'
          = (Inr L1, w1)"
    unfolding test_def Let_def bind_prog_Inr by blast
  let ?S = "[Print_Test (test_loss v / real ?n) (correct v) ?n (100 * real (correct v) / real ?n),
             Print_TestElapsed]"
  from lp1 test_loop_world [of T criterion batches ?v0 wi wi] have wi': "wi' = wi" by simp
  from test_loop_frame [OF lp1] have ev: "ev_learner v = L\<lparr>training := False\<rparr>" by simp
  from fin1 have n: "?n \<noteq> 0" by (cases "?n = 0") simp_all
  from fin1 n ev wi' have L1: "L1 = L\<lparr>training := False\<rparr>" and w1: "w1 = wi\<lparr>trace := trace wi @ ?S\<rparr>"
    by auto
  from iterate_Inr [OF it1] have tr: "trace wi = trace w" by blast
  have second: "\<exists>w2. test T ld L1 criterion w1 = (Inr L1, w2) \<and> trace w2 = trace w1 @ ?S"
    if same: "fst (iterate T ld w1) = fst (iterate T ld w)"
  proof -
    obtain res wj where it2: "iterate T ld w1 = (res, wj)" by (cases "iterate T ld w1")
    with same it1 have it2': "iterate T ld w1 = (Inr batches, wj)" by simp
    from iterate_Inr [OF it2'] have trj: "trace wj = trace w1" by blast
    from lp1 test_loop_world [of T criterion batches ?v0 wj wi]
    have lp2: "test_loop T criterion batches ?v0 wj = (Inr v, wj)" by simp
    have "test T ld L1 criterion w1 = (Inr L1, wj\<lparr>trace := trace wj @ ?S\<rparr>)"
      using it2' lp2 n ev by (simp add: test_def Let_def bind_prog_def emit_def L1)
    with trj show ?thesis by simp
  qed
  from L1 w1 tr second show ?thesis by auto
qed

text \<open>
  Claim C5. A pass of \<^verbatim>\<open>test\<close> that returns leaves the parameters, the buffers, the
  gradients, the optimizer's accumulators and the learning rate as they were (it only
  puts the model in evaluation mode) and prints one summary line and one elapsed-time
  line. A second pass right after it, over a supply that yields the same batches, returns
  the same model and prints the same summary: the same mean loss and the same accuracy. A
  loader that does not shuffle, over a dataset with the fixed evaluation transform, yields
  the same batches whatever the state of the random generators.
\<close>

theorem evaluation_has_no_side_effects:
  assumes "test T ld L criterion w = (Inr L1, w1)"
  shows "params L1 = params L \<and> buffers L1 = buffers L \<and> grads L1 = grads L
       \<and> opt_state L1 = opt_state L \<and> opt_lr L1 = opt_lr L
       \<and> (\<exists>l k n pct. trace w1 = trace w @ [Print_Test l k n pct, Print_TestElapsed]
            \<and> (fst (iterate T ld w1) = fst (iterate T ld w) \<longrightarrow>
                 (\<exists>w2. test T ld L1 criterion w1 = (Inr L1, w2)
                     \<and> trace w2 = trace w1 @ [Print_Test l k n pct, Print_TestElapsed])))
       \<and> (\<not> loader_shuffle ld \<and> transform (dataset ld) = TestTransform \<longrightarrow>
            fst (iterate T ld w1) = fst (iterate T ld w))"
proof -
  from test_twice [OF assms] have "L1 = L\<lparr>training := False\<rparr>" by blast
  then have "params L1 = params L \<and> buffers L1 = buffers L \<and> grads L1 = grads L
       \<and> opt_state L1 = opt_state L \<and> opt_lr L1 = opt_lr L" by simp
  with test_twice [OF assms] iterate_fixed [of ld T w1 w] show ?thesis by blast
qed


lemma toy_test_returns:
  "\<exists>L' w'. test toy_torch toy_val_loader toy_learner CrossEntropyLoss_sum
               (process_start Map.empty toy_rngs) = (Inr L', w')"
    by (simp add: test_def Let_def toy_bind_iterate_val,
        simp add: test_batch_def call_model_def toy_learner_def toy_torch_def
          CrossEntropyLoss_sum_def toy_val_loader_def)

theorem evaluation_has_no_side_effects_witness:
  "\<exists>L1 w1 w2 l k n pct.
      test toy_torch toy_val_loader toy_learner CrossEntropyLoss_sum
        (process_start Map.empty toy_rngs) = (Inr L1, w1)
    \<and> params L1 = params toy_learner \<and> grads L1 = grads toy_learner
    \<and> trace w1 = [Print_Test l k n pct, Print_TestElapsed]
    \<and> test toy_torch toy_val_loader L1 CrossEntropyLoss_sum w1 = (Inr L1, w2)
    \<and> trace w2 = [Print_Test l k n pct, Print_TestElapsed,
                   Print_Test l k n pct, Print_TestElapsed]"
proof -
  from toy_test_returns obtain L1 w1 where
    e: "test toy_torch toy_val_loader toy_learner CrossEntropyLoss_sum
          (process_start Map.empty toy_rngs) = (Inr L1, w1)" by blast
  have ns: "\<not> loader_shuffle toy_val_loader" "transform (dataset toy_val_loader) = TestTransform"
    by (simp_all add: toy_val_loader_def)
  have t0: "trace (process_start Map.empty toy_rngs) = []" by (simp add: process_start_def)
  from evaluation_has_no_side_effects [OF e] ns obtain l k n pct w2 where
    "params L1 = params toy_learner" "grads L1 = grads toy_learner"
    "trace w1 = trace (process_start Map.empty toy_rngs) @ [Print_Test l k n pct, Print_TestElapsed]"
    "test toy_torch toy_val_loader L1 CrossEntropyLoss_sum w1 = (Inr L1, w2)"
    "trace w2 = trace w1 @ [Print_Test l k n pct, Print_TestElapsed]"
    by blast
  with e t0 show ?thesis by auto
qed

section \<open>The model registry and the choice of a model\<close>

lemma map_of_MODEL_MAP:
  "map_of MODEL_MAP name =
     (if name = ''resnet18'' then Some ImageNet_Resnet18
      else if name = ''resnet34'' then Some ImageNet_Resnet34
      else if name = ''resnet50'' then Some ImageNet_Resnet50
      else if name = ''resnet101'' then Some ImageNet_Resnet101
      else if name = ''resnet152'' then Some ImageNet_Resnet152
      else None)"
  by (simp add: MODEL_MAP_def)

lemma keys_MODEL_MAP:
  "map fst MODEL_MAP = [''resnet18'', ''resnet34'', ''resnet50'', ''resnet101'', ''resnet152'']"
  by (simp add: MODEL_MAP_def)

lemma construct_Some:
  "map_of MODEL_MAP name = Some c \<Longrightarrow>
   construct_model T name w =
     (Inr (fst (hub_load T (model_init c) (rng w))),
      w\<lparr>trace := trace w @ [HubLoad (model_init c)],
        rng := snd (hub_load T (model_init c) (rng w))\<rparr>)"
  by (simp add: construct_model_def case_prod_beta)

lemma construct_None:
  "map_of MODEL_MAP name = None \<Longrightarrow> construct_model T name w = (Inl (KeyError name), w)"
  by (simp add: construct_model_def)

lemma map_of_MODEL_MAP_Some:
  "(\<exists>c. map_of MODEL_MAP name = Some c) \<longleftrightarrow> name \<in> set (map fst MODEL_MAP)"
  by (simp add: map_of_MODEL_MAP keys_MODEL_MAP)

lemma model_init_entry:
  "map_of MODEL_MAP name = Some c \<Longrightarrow>
   entry (model_init c) = name \<and> \<not> pretrained (model_init c) \<and> num_classes (model_init c) = 200"
  by (auto simp: map_of_MODEL_MAP split: if_splits)

lemma construct_Inr:
  "(\<exists>m w'. construct_model T name w = (Inr m, w')) \<longleftrightarrow> name \<in> set (map fst MODEL_MAP)"
proof (cases "map_of MODEL_MAP name")
  case None
  with map_of_MODEL_MAP_Some [of name] construct_None [OF None, of T w] show ?thesis by simp
next
  case (Some c)
  then have "name \<in> set (map fst MODEL_MAP)"
    using map_of_MODEL_MAP_Some [of name] by blast
  moreover have "\<exists>m w'. construct_model T name w = (Inr m, w')"
    using construct_Some [OF Some, of T w] by blast
  ultimately show ?thesis by blast
qed

lemma construct_call:
  assumes "construct_model T name w = (Inr m, w')"
  shows "\<exists>c. trace w' = trace w @ [HubLoad c] \<and> entry c = name \<and> \<not> pretrained c
            \<and> num_classes c = 200"
proof (cases "map_of MODEL_MAP name")
  case None
  with assms construct_None [OF None, of T w] show ?thesis by simp
next
  case (Some c)
  with assms construct_Some [OF Some, of T w] model_init_entry [OF Some] show ?thesis
    by auto
qed

lemma run_invalid_choice:
  assumes "cli_model c = Some name" and "name \<notin> set (map fst MODEL_MAP)"
  shows "run T H c w = (Inl (InvalidChoice name (map fst MODEL_MAP)), w)"
  using assms by (simp add: run_def parse_args_def)

text \<open>
  Claim C4. Building a model from a name returns exactly when the name is one of the five
  keys \<^verbatim>\<open>resnet18\<close>, \<^verbatim>\<open>resnet34\<close>, \<^verbatim>\<open>resnet50\<close>, \<^verbatim>\<open>resnet101\<close>, \<^verbatim>\<open>resnet152\<close>; it then
  makes one call of \<^verbatim>\<open>torch.hub.load\<close>, for the architecture of that name, not pretrained,
  with 200 output classes. A \<^verbatim>\<open>--model\<close> value outside the five keys is refused by the
  parser with an error that lists the five choices, and \<^verbatim>\<open>main\<close> ends there with the world
  as it was: no environment variable set, no dataset or loader built, nothing printed. A
  value among the five keys is accepted (when \<^verbatim>\<open>--data\<close> is given) and becomes the model
  name of the run.
\<close>

theorem model_registry:
  "((\<exists>m w'. construct_model T name w = (Inr m, w')) \<longleftrightarrow>
      name \<in> {''resnet18'', ''resnet34'', ''resnet50'', ''resnet101'', ''resnet152''})
   \<and> (\<forall>m w'. construct_model T name w = (Inr m, w') \<longrightarrow>
        (\<exists>c. trace w' = trace w @ [HubLoad c] \<and> entry c = name \<and> \<not> pretrained c
            \<and> num_classes c = 200))
   \<and> (cli_model c = Some name
        \<and> name \<notin> {''resnet18'', ''resnet34'', ''resnet50'', ''resnet101'', ''resnet152''} \<longrightarrow>
        parse_args c =
          Inl (InvalidChoice name
                 [''resnet18'', ''resnet34'', ''resnet50'', ''resnet101'', ''resnet152''])
        \<and> main T H c w =
          (Inl (InvalidChoice name
                  [''resnet18'', ''resnet34'', ''resnet50'', ''resnet101'', ''resnet152'']), w))
   \<and> (cli_model c = Some name \<and> cli_data c \<noteq> None
        \<and> name \<in> {''resnet18'', ''resnet34'', ''resnet50'', ''resnet101'', ''resnet152''} \<longrightarrow>
        (\<exists>a. parse_args c = Inr a \<and> model a = name))"
proof -
  have 1: "(\<exists>m w'. construct_model T name w = (Inr m, w')) \<longleftrightarrow>
      name \<in> {''resnet18'', ''resnet34'', ''resnet50'', ''resnet101'', ''resnet152''}"
    using construct_Inr [of T name w] by (simp add: keys_MODEL_MAP)
  have 2: "\<forall>m w'. construct_model T name w = (Inr m, w') \<longrightarrow>
        (\<exists>c. trace w' = trace w @ [HubLoad c] \<and> entry c = name \<and> \<not> pretrained c
            \<and> num_classes c = 200)"
    using construct_call by blast
  have 3: "parse_args c =
          Inl (InvalidChoice name
                 [''resnet18'', ''resnet34'', ''resnet50'', ''resnet101'', ''resnet152''])
        \<and> main T H c w =
          (Inl (InvalidChoice name
                  [''resnet18'', ''resnet34'', ''resnet50'', ''resnet101'', ''resnet152'']), w)"
    if "cli_model c = Some name"
      "name \<notin> {''resnet18'', ''resnet34'', ''resnet50'', ''resnet101'', ''resnet152''}"
    using that run_invalid_choice [of c name T H w]
    by (simp add: keys_MODEL_MAP main_def parse_args_def bind_prog_def)
  have 4: "\<exists>a. parse_args c = Inr a \<and> model a = name"
    if "cli_model c = Some name" "cli_data c \<noteq> None"
      "name \<in> {''resnet18'', ''resnet34'', ''resnet50'', ''resnet101'', ''resnet152''}"
    using that by (auto simp: parse_args_def keys_MODEL_MAP namespace_def)
  from 1 2 3 4 show ?thesis by blast
qed

theorem model_registry_witness:
  "(\<exists>m w' c. construct_model toy_torch ''resnet50'' (process_start Map.empty toy_rngs) = (Inr m, w')
       \<and> trace w' = [HubLoad c] \<and> entry c = ''resnet50'' \<and> \<not> pretrained c \<and> num_classes c = 200)
   \<and> main toy_torch toy_host (toy_cli\<lparr>cli_model := Some ''vgg16''\<rparr>)
        (process_start Map.empty toy_rngs) =
      (Inl (InvalidChoice ''vgg16''
              [''resnet18'', ''resnet34'', ''resnet50'', ''resnet101'', ''resnet152'']),
       process_start Map.empty toy_rngs)
   \<and> (\<exists>a. parse_args (toy_cli\<lparr>cli_model := Some ''resnet101''\<rparr>) = Inr a
         \<and> model a = ''resnet101'')"
proof -
  note r = model_registry [of toy_torch "''resnet50''" "process_start Map.empty toy_rngs"
      "toy_cli\<lparr>cli_model := Some ''vgg16''\<rparr>" toy_host]
  note v = model_registry [of toy_torch "''vgg16''" "process_start Map.empty toy_rngs"
      "toy_cli\<lparr>cli_model := Some ''vgg16''\<rparr>" toy_host]
  note p = model_registry [of toy_torch "''resnet101''" "process_start Map.empty toy_rngs"
      "toy_cli\<lparr>cli_model := Some ''resnet101''\<rparr>" toy_host]
  have t0: "trace (process_start Map.empty toy_rngs) = []" by (simp add: process_start_def)
  have d: "cli_data (toy_cli\<lparr>cli_model := Some ''resnet101''\<rparr>) \<noteq> None"
    by (simp add: toy_cli_def)
  from r have "\<exists>m w' c. construct_model toy_torch ''resnet50'' (process_start Map.empty toy_rngs) = (Inr m, w')
       \<and> trace w' = [HubLoad c] \<and> entry c = ''resnet50'' \<and> \<not> pretrained c \<and> num_classes c = 200"
    unfolding t0 by (simp, blast)
  moreover from v have "main toy_torch toy_host (toy_cli\<lparr>cli_model := Some ''vgg16''\<rparr>)
        (process_start Map.empty toy_rngs) =
      (Inl (InvalidChoice ''vgg16''
              [''resnet18'', ''resnet34'', ''resnet50'', ''resnet101'', ''resnet152'']),
       process_start Map.empty toy_rngs)" by simp
  moreover from p d have "\<exists>a. parse_args (toy_cli\<lparr>cli_model := Some ''resnet101''\<rparr>) = Inr a
         \<and> model a = ''resnet101''" by simp
  ultimately show ?thesis by blast
qed

section \<open>The statements of main, one by one\<close>

lemma bind_set_environ [simp]:
  "bind_prog (set_environ k v) f w =
     f () (w\<lparr>environ := (environ w)(k \<mapsto> v), trace := trace w @ [SetEnviron k v]\<rparr>)"
  by (simp add: bind_prog_def set_environ_def)

lemma bind_get_use_cuda [simp]:
  "bind_prog (get_use_cuda H a) f w = f (\<not> no_cuda a \<and> cuda_is_available H (environ w)) w"
  by (simp add: bind_prog_def get_use_cuda_def)

lemma bind_set_cudnn_deterministic [simp]:
  "bind_prog (set_cudnn_deterministic b) f w =
     f () (w\<lparr>cudnn_deterministic := b, trace := trace w @ [SetCudnn ''deterministic'' b]\<rparr>)"
  by (simp add: bind_prog_def set_cudnn_deterministic_def)

lemma bind_set_cudnn_benchmark [simp]:
  "bind_prog (set_cudnn_benchmark b) f w =
     f () (w\<lparr>cudnn_benchmark := b, trace := trace w @ [SetCudnn ''benchmark'' b]\<rparr>)"
  by (simp add: bind_prog_def set_cudnn_benchmark_def)

lemma bind_torch_manual_seed [simp]:
  "bind_prog (torch_manual_seed v) f w =
     f () (w\<lparr>rng := (rng w)\<lparr>torch_gen := Seeded v 0\<rparr>,
             trace := trace w @ [SeedCall ''torch.manual_seed'' v]\<rparr>)"
  by (simp add: bind_prog_def torch_manual_seed_def)

lemma bind_torch_cuda_manual_seed_all [simp]:
  "bind_prog (torch_cuda_manual_seed_all v) f w =
     f () (w\<lparr>rng := (rng w)\<lparr>cuda_gen := Seeded v 0\<rparr>,
             trace := trace w @ [SeedCall ''torch.cuda.manual_seed_all'' v]\<rparr>)"
  by (simp add: bind_prog_def torch_cuda_manual_seed_all_def)

lemma bind_random_seed [simp]:
  "bind_prog (random_seed v) f w =
     f () (w\<lparr>rng := (rng w)\<lparr>py_gen := Seeded v 0\<rparr>,
             trace := trace w @ [SeedCall ''random.seed'' v]\<rparr>)"
  by (simp add: bind_prog_def random_seed_def)

lemma bind_np_random_seed [simp]:
  "bind_prog (np_random_seed v) f w =
     f () (w\<lparr>rng := (rng w)\<lparr>np_gen := Seeded v 0\<rparr>,
             trace := trace w @ [SeedCall ''np.random.seed'' v]\<rparr>)"
  by (simp add: bind_prog_def np_random_seed_def)

lemma main_setup_split:
  "main_setup T H a w = after_banner T H a (use_cuda H a w) (seeded_world H a w)"
  by (cases w, cases "rng w")
     (simp add: main_setup_def after_banner_def seeded_world_def use_cuda_def fun_upd_twist)


lemma kw_train [simp]:
  "kw_int (train_kwargs a uc) ''batch_size'' d = batch_size a"
  "kw_bool (train_kwargs a uc) ''shuffle'' False = uc"
  "kw_int (train_kwargs a uc) ''num_workers'' 0 = (if uc then 2 else 0)"
  "kw_bool (train_kwargs a uc) ''pin_memory'' False = uc"
  by (simp_all add: kw_int_def kw_bool_def train_kwargs_def cuda_kwargs_def map_add_def)

lemma kw_test [simp]:
  "kw_int (test_kwargs a uc) ''batch_size'' d = test_batch_size a"
  "kw_bool (test_kwargs a uc) ''shuffle'' False = uc"
  "kw_int (test_kwargs a uc) ''num_workers'' 0 = (if uc then 2 else 0)"
  "kw_bool (test_kwargs a uc) ''pin_memory'' False = uc"
  by (simp_all add: kw_int_def kw_bool_def test_kwargs_def cuda_kwargs_def map_add_def)

lemma ImageFolder_Inr:
  "ImageFolder H path tr w = (Inr ds, w') \<longleftrightarrow>
     (\<exists>x xs. image_folder H path = Some (x # xs) \<and> ds = \<lparr>samples = x # xs, transform = tr\<rparr>)
     \<and> w' = w\<lparr>trace := trace w @ [ImageFolder_call path]\<rparr>"
  by (auto simp: ImageFolder_def split: option.splits list.splits)

lemma DataLoader_Inr:
  "DataLoader ds kw w = (Inr ld, w') \<longleftrightarrow>
     0 < kw_int kw ''batch_size'' 1
     \<and> ld = \<lparr>dataset = ds, loader_batch_size = nat (kw_int kw ''batch_size'' 1),
             loader_shuffle = kw_bool kw ''shuffle'' False,
             loader_num_workers = nat (kw_int kw ''num_workers'' 0),
             loader_pin_memory = kw_bool kw ''pin_memory'' False\<rparr>
     \<and> w' = w\<lparr>trace := trace w @ [DataLoader_call (kw_int kw ''batch_size'' 1)
                                       (kw_bool kw ''shuffle'' False)]\<rparr>"
  by (auto simp: DataLoader_def)

lemma Adadelta_Inr:
  "Adadelta T m r w = (Inr L, w') \<longleftrightarrow>
     0 \<le> r \<and> w' = w
     \<and> L = \<lparr>params = fst m, buffers = fst (snd m), training = True, grads = snd (snd m),
            opt_state = adadelta_init T (fst m), opt_lr = r\<rparr>"
  by (cases m) (auto simp: Adadelta_def)

lemma construct_model_Inr:
  "construct_model T name w = (Inr m, w') \<longleftrightarrow>
     (\<exists>c. map_of MODEL_MAP name = Some c
        \<and> fst (hub_load T (model_init c) (rng w)) = m
        \<and> w' = w\<lparr>trace := trace w @ [HubLoad (model_init c)],
                  rng := snd (hub_load T (model_init c) (rng w))\<rparr>)"
  by (cases "map_of MODEL_MAP name") (auto simp: construct_Some construct_None)

lemma vga_Inr:
  "(if uc then (case py_int H g of None \<Rightarrow> raise ValueError
                | Some n \<Rightarrow> emit (Print_VGA n (get_device_name H)))
    else return ()) w = (Inr u, w') \<longleftrightarrow>
   (if uc then (\<exists>n. py_int H g = Some n
                  \<and> w' = w\<lparr>trace := trace w @ [Print_VGA n (get_device_name H)]\<rparr>)
    else w' = w)"
  by (auto simp: emit_def split: option.splits)

lemma after_banner_Inr:
  assumes "after_banner T H a uc w = (Inr S, w')"
  shows "\<exists>vga xs ys c.
      (if uc then \<exists>n. py_int H (gpu_num a) = Some n \<and> vga = [Print_VGA n (get_device_name H)]
       else vga = [])
    \<and> xs \<noteq> [] \<and> image_folder H (path_join (data a) ''train'') = Some xs
    \<and> ys \<noteq> [] \<and> image_folder H (path_join (data a) ''val'') = Some ys
    \<and> 0 < batch_size a \<and> 0 < test_batch_size a \<and> 0 \<le> lr a
    \<and> map_of MODEL_MAP (model a) = Some c
    \<and> train_loader S =
        \<lparr>dataset = \<lparr>samples = xs, transform = TrainTransform\<rparr>,
         loader_batch_size = nat (batch_size a), loader_shuffle = uc,
         loader_num_workers = (if uc then 2 else 0), loader_pin_memory = uc\<rparr>
    \<and> test_loader S =
        \<lparr>dataset = \<lparr>samples = ys, transform = TestTransform\<rparr>,
         loader_batch_size = nat (test_batch_size a), loader_shuffle = uc,
         loader_num_workers = (if uc then 2 else 0), loader_pin_memory = uc\<rparr>
    \<and> the_learner S =
        \<lparr>params = fst (fst (hub_load T (model_init c) (rng w))),
         buffers = fst (snd (fst (hub_load T (model_init c) (rng w)))),
         training = True,
         grads = snd (snd (fst (hub_load T (model_init c) (rng w)))),
         opt_state = adadelta_init T (fst (fst (hub_load T (model_init c) (rng w)))),
         opt_lr = lr a\<rparr>
    \<and> the_scheduler S = StepLR 1 0.7
    \<and> w' = w\<lparr>trace := trace w @ vga @
                [ImageFolder_call (path_join (data a) ''train''),
                 ImageFolder_call (path_join (data a) ''val''),
                 DataLoader_call (batch_size a) uc,
                 DataLoader_call (test_batch_size a) uc,
                 HubLoad (model_init c)],
              rng := snd (hub_load T (model_init c) (rng w))\<rparr>"
  using assms unfolding after_banner_def bind_prog_Inr vga_Inr ImageFolder_Inr DataLoader_Inr
    construct_model_Inr Adadelta_Inr
  by (cases uc) (auto simp: nat_eq_iff)


lemma bind_ImageFolder:
  "image_folder H path = Some (x # xs) \<Longrightarrow>
   bind_prog (ImageFolder H path tr) f w =
     f \<lparr>samples = x # xs, transform = tr\<rparr> (w\<lparr>trace := trace w @ [ImageFolder_call path]\<rparr>)"
  by (simp add: ImageFolder_def bind_prog_def emit_def return_def)

lemma bind_DataLoader:
  "0 < kw_int kw ''batch_size'' 1 \<Longrightarrow>
   bind_prog (DataLoader ds kw) f w =
     f \<lparr>dataset = ds, loader_batch_size = nat (kw_int kw ''batch_size'' 1),
        loader_shuffle = kw_bool kw ''shuffle'' False,
        loader_num_workers = nat (kw_int kw ''num_workers'' 0),
        loader_pin_memory = kw_bool kw ''pin_memory'' False\<rparr>
       (w\<lparr>trace := trace w @ [DataLoader_call (kw_int kw ''batch_size'' 1)
                                  (kw_bool kw ''shuffle'' False)]\<rparr>)"
  by (simp add: DataLoader_def bind_prog_def emit_def return_def)

lemma bind_construct_model:
  "map_of MODEL_MAP name = Some c \<Longrightarrow>
   bind_prog (construct_model T name) f w =
     f (fst (hub_load T (model_init c) (rng w)))
       (w\<lparr>trace := trace w @ [HubLoad (model_init c)],
          rng := snd (hub_load T (model_init c) (rng w))\<rparr>)"
  by (simp add: bind_prog_def construct_Some)

lemma bind_Adadelta:
  "0 \<le> r \<Longrightarrow>
   bind_prog (Adadelta T m r) f w =
     f \<lparr>params = fst m, buffers = fst (snd m), training = True, grads = snd (snd m),
        opt_state = adadelta_init T (fst m), opt_lr = r\<rparr> w"
  by (cases m) (simp add: Adadelta_def)

lemma toy_parse: "parse_args toy_cli = Inr (namespace toy_cli ''d'' ''resnet18'')"
  by (simp add: parse_args_def toy_cli_def)

lemma toy_setup_returns:
  "\<exists>S w'. main_setup toy_torch toy_host (namespace toy_cli ''d'' ''resnet18'')
             (process_start Map.empty toy_rngs) = (Inr S, w')"
  by (simp add: main_setup_split after_banner_def use_cuda_def toy_host_def namespace_def
        toy_cli_def path_join_def bind_ImageFolder bind_DataLoader bind_construct_model
        map_of_MODEL_MAP bind_Adadelta)

lemma toy_gpu_setup_returns:
  "\<exists>S w'. main_setup toy_torch toy_gpu_host
             (namespace (toy_cli\<lparr>cli_no_cuda := False\<rparr>) ''d'' ''resnet18'')
             (process_start Map.empty toy_rngs) = (Inr S, w')"
  by (simp add: main_setup_split after_banner_def use_cuda_def toy_host_def toy_gpu_host_def
        namespace_def toy_cli_def path_join_def bind_ImageFolder bind_DataLoader
        bind_construct_model map_of_MODEL_MAP bind_Adadelta)

lemma main_setup_Inr:
  assumes "main_setup T H a w = (Inr S, w')"
  shows "loader_shuffle (train_loader S) = use_cuda H a w"
    and "loader_shuffle (test_loader S) = use_cuda H a w"
    and "transform (dataset (train_loader S)) = TrainTransform"
    and "transform (dataset (test_loader S)) = TestTransform"
    and "0 < loader_batch_size (train_loader S)"
    and "0 < loader_batch_size (test_loader S)"
    and "samples (dataset (train_loader S)) \<noteq> []"
    and "samples (dataset (test_loader S)) \<noteq> []"
    and "the_scheduler S = StepLR 1 0.7"
    and "opt_lr (the_learner S) = lr a"
    and "0 \<le> lr a"
  using after_banner_Inr [OF assms [unfolded main_setup_split]] by auto

lemma map_nth_upt: "map (\<lambda>i. f (xs ! i)) [0..<length xs] = map f xs"
  by (rule nth_equalityI) auto

lemma iterate_in_order:
  assumes "iterate T ld w = (Inr batches, w')" and "\<not> loader_shuffle ld"
    and "0 < loader_batch_size ld"
  shows "map snd (concat batches) = map snd (samples (dataset ld))"
proof -
  from assms(1,2) have "batches = chunks (loader_batch_size ld)
      (fst (fetch T (dataset ld) [0..<length (samples (dataset ld))] (rng w)))"
    by (auto simp: iterate_def sampler_def Let_def case_prod_beta)
  with assms(3) show ?thesis
    by (simp add: concat_chunks fetch_labels map_nth_upt)
qed

section \<open>Which loaders shuffle\<close>

lemma iterate_shuffled:
  assumes "iterate T ld w = (Inr batches, w')" and "loader_shuffle ld"
    and "0 < loader_batch_size ld"
  shows "map snd (concat batches) =
           map (\<lambda>i. snd (samples (dataset ld) ! i))
             (sort_key (fst (rand_keys T (rng w))) [0..<length (samples (dataset ld))])"
    and "mset (map snd (concat batches)) = mset (map snd (samples (dataset ld)))"
proof -
  let ?idx = "sort_key (fst (rand_keys T (rng w))) [0..<length (samples (dataset ld))]"
  from assms(1,2) have "batches = chunks (loader_batch_size ld)
      (fst (fetch T (dataset ld) ?idx (snd (rand_keys T (rng w)))))"
    by (auto simp: iterate_def sampler_def Let_def case_prod_beta)
  with assms(3) show a: "map snd (concat batches) = map (\<lambda>i. snd (samples (dataset ld) ! i)) ?idx"
    by (simp add: concat_chunks fetch_labels)
  have "mset (map (\<lambda>i. snd (samples (dataset ld) ! i)) ?idx) =
        image_mset (\<lambda>i. snd (samples (dataset ld) ! i)) (mset ?idx)"
    by simp
  also have "mset ?idx = mset [0..<length (samples (dataset ld))]" by simp
  also have "image_mset (\<lambda>i. snd (samples (dataset ld) ! i)) (mset [0..<length (samples (dataset ld))])
        = mset (map (\<lambda>i. snd (samples (dataset ld) ! i)) [0..<length (samples (dataset ld))])"
    by simp
  also have "\<dots> = mset (map snd (samples (dataset ld)))" by (simp only: map_nth_upt)
  finally show "mset (map snd (concat batches)) = mset (map snd (samples (dataset ld)))"
    by (simp only: a)
qed

lemma iterate_returns: "\<exists>batches w'. iterate T ld w = (Inr batches, w')"
  by (simp add: iterate_def Let_def case_prod_beta)

text \<open>
  The claim C2 as stated (the training loader shuffles and the evaluation loader keeps
  the dataset order, on every device) fails on both devices: without an accelerator the
  training loader does not shuffle, and with one the evaluation loader shuffles.
\<close>

theorem shuffle_follows_device_counterexample:
  "(\<exists>S w'. main_setup toy_torch toy_host (namespace toy_cli ''d'' ''resnet18'')
             (process_start Map.empty toy_rngs) = (Inr S, w')
          \<and> \<not> loader_shuffle (train_loader S))
   \<and> (\<exists>S w'. main_setup toy_torch toy_gpu_host
             (namespace (toy_cli\<lparr>cli_no_cuda := False\<rparr>) ''d'' ''resnet18'')
             (process_start Map.empty toy_rngs) = (Inr S, w')
          \<and> loader_shuffle (test_loader S))"
proof -
  from toy_setup_returns obtain S w' where
    e: "main_setup toy_torch toy_host (namespace toy_cli ''d'' ''resnet18'')
          (process_start Map.empty toy_rngs) = (Inr S, w')" by blast
  from main_setup_Inr(1) [OF e] have "\<not> loader_shuffle (train_loader S)"
    by (simp add: use_cuda_def toy_host_def)
  moreover
  from toy_gpu_setup_returns obtain S2 w2 where
    e2: "main_setup toy_torch toy_gpu_host
           (namespace (toy_cli\<lparr>cli_no_cuda := False\<rparr>) ''d'' ''resnet18'')
           (process_start Map.empty toy_rngs) = (Inr S2, w2)" by blast
  from main_setup_Inr(2) [OF e2] have "loader_shuffle (test_loader S2)"
    by (simp add: use_cuda_def toy_gpu_host_def toy_host_def namespace_def toy_cli_def)
  ultimately show ?thesis using e e2 by blast
qed

text \<open>
  Claim C2, amended. The \<^verbatim>\<open>shuffle\<close> keyword is one of the keywords that \<^verbatim>\<open>main\<close> adds to
  both loaders when the accelerator is used, and to neither otherwise. So both loaders
  shuffle exactly when the accelerator is used (\<^verbatim>\<open>--no_cuda\<close> is not given and an
  accelerator is available): each pass then yields the samples in a random order drawn
  from the generators at that pass, a permutation of the dataset. On the CPU neither
  loader shuffles: each pass yields the labels in the order of the dataset.
\<close>

theorem shuffle_follows_device:
  assumes "main_setup T H a w = (Inr S, w')"
  shows "loader_shuffle (train_loader S) = use_cuda H a w
       \<and> loader_shuffle (test_loader S) = use_cuda H a w
       \<and> (\<forall>ld \<in> {train_loader S, test_loader S}. \<forall>w1 batches w2.
            iterate T ld w1 = (Inr batches, w2) \<longrightarrow>
              (if use_cuda H a w
               then map snd (concat batches) =
                      map (\<lambda>i. snd (samples (dataset ld) ! i))
                        (sort_key (fst (rand_keys T (rng w1)))
                           [0..<length (samples (dataset ld))])
                    \<and> mset (map snd (concat batches)) = mset (map snd (samples (dataset ld)))
               else map snd (concat batches) = map snd (samples (dataset ld))))"
proof -
  note s = main_setup_Inr [OF assms]
  have "\<forall>ld \<in> {train_loader S, test_loader S}. \<forall>w1 batches w2.
            iterate T ld w1 = (Inr batches, w2) \<longrightarrow>
              (if use_cuda H a w
               then map snd (concat batches) =
                      map (\<lambda>i. snd (samples (dataset ld) ! i))
                        (sort_key (fst (rand_keys T (rng w1)))
                           [0..<length (samples (dataset ld))])
                    \<and> mset (map snd (concat batches)) = mset (map snd (samples (dataset ld)))
               else map snd (concat batches) = map snd (samples (dataset ld)))"
  proof (intro ballI allI impI)
    fix ld w1 batches w2
    assume ld: "ld \<in> {train_loader S, test_loader S}"
      and it: "iterate T ld w1 = (Inr batches, w2)"
    from ld s have sh: "loader_shuffle ld = use_cuda H a w" and bs: "0 < loader_batch_size ld"
      by auto
    show "if use_cuda H a w
          then map snd (concat batches) =
                 map (\<lambda>i. snd (samples (dataset ld) ! i))
                   (sort_key (fst (rand_keys T (rng w1))) [0..<length (samples (dataset ld))])
               \<and> mset (map snd (concat batches)) = mset (map snd (samples (dataset ld)))
          else map snd (concat batches) = map snd (samples (dataset ld))"
    proof (cases "use_cuda H a w")
      case True
      with sh iterate_shuffled [OF it _ bs] show ?thesis by simp
    next
      case False
      with sh iterate_in_order [OF it _ bs] show ?thesis by simp
    qed
  qed
  with s(1,2) show ?thesis by blast
qed


theorem shuffle_follows_device_witness:
  "\<exists>S w' batches w2.
      main_setup toy_torch toy_host (namespace toy_cli ''d'' ''resnet18'')
        (process_start Map.empty toy_rngs) = (Inr S, w')
    \<and> \<not> loader_shuffle (train_loader S) \<and> \<not> loader_shuffle (test_loader S)
    \<and> iterate toy_torch (train_loader S) w' = (Inr batches, w2)
    \<and> map snd (concat batches) = map snd (samples (dataset (train_loader S)))"
proof -
  from toy_setup_returns obtain S w' where
    e: "main_setup toy_torch toy_host (namespace toy_cli ''d'' ''resnet18'')
          (process_start Map.empty toy_rngs) = (Inr S, w')" by blast
  from iterate_returns obtain batches w2 where
    it: "iterate toy_torch (train_loader S) w' = (Inr batches, w2)" by blast
  have cpu: "\<not> use_cuda toy_host (namespace toy_cli ''d'' ''resnet18'')
               (process_start Map.empty toy_rngs)"
    by (simp add: use_cuda_def toy_host_def)
  from shuffle_follows_device [OF e] cpu it
  have "\<not> loader_shuffle (train_loader S) \<and> \<not> loader_shuffle (test_loader S)
      \<and> map snd (concat batches) = map snd (samples (dataset (train_loader S)))"
    by simp blast
  with e it show ?thesis by blast
qed

section \<open>What each statement adds to the trace\<close>

lemma appendsD:
  "appends P m \<Longrightarrow> m w = (r, w') \<Longrightarrow> \<exists>evs. trace w' = trace w @ evs \<and> list_all P evs"
  unfolding appends_def by (metis snd_conv)

lemma appends_return [intro!, simp]: "appends P (return a)"
  by (simp add: appends_def return_def)

lemma appends_raise [intro!, simp]: "appends P (raise e)"
  by (simp add: appends_def raise_def)

lemma appends_lift_result [intro!, simp]: "appends P (lift_result x)"
  by (simp add: appends_def lift_result_def)

lemma appends_emit [intro!]: "P e \<Longrightarrow> appends P (emit e)"
  by (simp add: appends_def emit_def)

lemma appends_bind [intro!]:
  assumes "appends P m" and "\<And>a. appends P (f a)"
  shows "appends P (bind_prog m f)"
  unfolding appends_def
proof
  fix w
  obtain r1 w1 where m: "m w = (r1, w1)" by (cases "m w")
  from appendsD [OF assms(1) m] obtain evs1 where
    e1: "trace w1 = trace w @ evs1" "list_all P evs1" by blast
  show "\<exists>evs. trace (snd (bind_prog m f w)) = trace w @ evs \<and> list_all P evs"
  proof (cases r1)
    case (Inl e)
    with m e1 show ?thesis by (auto simp: bind_prog_def)
  next
    case (Inr a)
    obtain r2 w2 where f: "f a w1 = (r2, w2)" by (cases "f a w1")
    from appendsD [OF assms(2) f] obtain evs2 where
      e2: "trace w2 = trace w1 @ evs2" "list_all P evs2" by blast
    from m Inr f have "snd (bind_prog m f w) = w2" by (simp add: bind_prog_def)
    with e1 e2 have "trace (snd (bind_prog m f w)) = trace w @ (evs1 @ evs2)
        \<and> list_all P (evs1 @ evs2)" by simp
    then show ?thesis by blast
  qed
qed

lemma appends_if [intro!]:
  "(b \<Longrightarrow> appends P m) \<Longrightarrow> (\<not> b \<Longrightarrow> appends P n) \<Longrightarrow> appends P (if b then m else n)"
  by simp

lemma appends_iterate [intro!, simp]: "appends P (iterate T ld)"
  by (simp add: appends_def iterate_def Let_def case_prod_beta)

lemma appends_train_batch [intro!]:
  "appends training_event (train_batch T criterion n i batch v)"
  unfolding train_batch_def Let_def case_prod_beta by (intro appends_bind appends_if) auto

lemma appends_train_loop [intro!]:
  "appends training_event (train_loop T criterion n i batches v)"
  by (induction batches arbitrary: i v) auto

lemma appends_train [intro!]: "appends training_event (train T ld L criterion)"
  unfolding train_def Let_def by (intro appends_bind appends_if) auto

lemma appends_test_batch [intro!]:
  "appends evaluation_event (test_batch T criterion batch v)"
  unfolding test_batch_def Let_def case_prod_beta by (intro appends_bind appends_if) auto

lemma appends_test_loop [intro!]:
  "appends evaluation_event (test_loop T criterion batches v)"
  by (induction batches arbitrary: v) auto

lemma appends_test [intro!]: "appends evaluation_event (test T ld L criterion)"
  unfolding test_def Let_def by (intro appends_bind appends_if) auto

lemma appends_mono:
  "appends P m \<Longrightarrow> (\<And>e. P e \<Longrightarrow> Q e) \<Longrightarrow> appends Q m"
  unfolding appends_def by (metis (mono_tags, lifting) list_all_iff)

lemma training_epoch_event: "training_event e \<Longrightarrow> epoch_event e"
  by (cases e) auto

lemma evaluation_epoch_event: "evaluation_event e \<Longrightarrow> epoch_event e"
  by (cases e) auto

lemma appends_epoch_loop [intro!]: "appends epoch_event (epoch_loop T es S)"
proof (induction es arbitrary: S)
  case Nil
  show ?case by simp
next
  case (Cons e es)
  have "appends epoch_event (train T (train_loader S) (the_learner S) CrossEntropyLoss_sum)"
    by (rule appends_mono [OF appends_train]) (rule training_epoch_event)
  moreover have "\<And>L. appends epoch_event (test T (test_loader S) L CrossEntropyLoss_sum)"
    by (rule appends_mono [OF appends_test]) (rule evaluation_epoch_event)
  ultimately show ?case unfolding epoch_loop.simps
    by (intro appends_bind appends_emit Cons.IH) simp_all
qed

lemma appends_ImageFolder [intro!]: "appends construction_event (ImageFolder H p tr)"
  unfolding ImageFolder_def by (auto split: option.splits list.splits)

lemma appends_DataLoader [intro!]: "appends construction_event (DataLoader ds kw)"
  unfolding DataLoader_def by auto

lemma appends_construct_model [intro!]: "appends construction_event (construct_model T name)"
proof (cases "map_of MODEL_MAP name")
  case None
  then show ?thesis by (simp add: construct_model_def)
next
  case (Some c)
  have "appends construction_event
          (\<lambda>w. let (m, r) = hub_load T (model_init c) (rng w) in (Inr m, w\<lparr>rng := r\<rparr>))"
    by (simp add: appends_def case_prod_beta)
  with Some show ?thesis unfolding construct_model_def
    by (simp del: bind_emit) (intro appends_bind appends_emit, simp_all)
qed

lemma appends_Adadelta [intro!]: "appends construction_event (Adadelta T m r)"
  unfolding Adadelta_def by (auto split: prod.splits)

lemma appends_after_banner [intro!]: "appends construction_event (after_banner T H a uc)"
  unfolding after_banner_def
  by (intro appends_bind appends_if) (auto split: option.splits)

section \<open>The shape of a run\<close>

lemma bind_return_right [simp]: "bind_prog m return = m"
  by (rule ext) (auto simp: bind_prog_def return_def split: prod.splits sum.splits)

lemma main_snd: "snd (main T H c w) = snd (run T H c w)"
  by (auto simp: main_def bind_prog_def return_def split: prod.splits sum.splits)

lemma main_Inr: "main T H c w = (Inr u, w') \<longleftrightarrow> (\<exists>S. run T H c w = (Inr S, w'))"
  by (auto simp: main_def bind_prog_def return_def split: prod.splits sum.splits)

lemma run_parse_error: "parse_args c = Inl e \<Longrightarrow> run T H c w = (Inl e, w)"
  by (simp add: run_def)

lemma run_parsed:
  "parse_args c = Inr a \<Longrightarrow>
   run T H c w = bind_prog (main_setup T H a) (epoch_loop T [1..epochs a]) w"
  by (simp add: run_def)

lemma run_trace:
  assumes "parse_args c = Inr a"
  shows "\<exists>evs1 evs2. trace (snd (run T H c w)) = trace (seeded_world H a w) @ evs1 @ evs2
           \<and> list_all construction_event evs1 \<and> list_all epoch_event evs2"
proof -
  obtain r1 w1 where s: "main_setup T H a w = (r1, w1)" by (cases "main_setup T H a w")
  then have "after_banner T H a (use_cuda H a w) (seeded_world H a w) = (r1, w1)"
    by (simp add: main_setup_split)
  from appendsD [OF appends_after_banner this] obtain evs1 where
    e1: "trace w1 = trace (seeded_world H a w) @ evs1" "list_all construction_event evs1"
    by blast
  show ?thesis
  proof (cases r1)
    case (Inl e)
    with s assms have "snd (run T H c w) = w1" by (simp add: run_parsed bind_prog_def)
    with e1 have "trace (snd (run T H c w)) = trace (seeded_world H a w) @ evs1 @ []
        \<and> list_all construction_event evs1 \<and> list_all epoch_event []" by simp
    then show ?thesis by blast
  next
    case (Inr S)
    obtain r2 w2 where l: "epoch_loop T [1..epochs a] S w1 = (r2, w2)"
      by (cases "epoch_loop T [1..epochs a] S w1")
    from appendsD [OF appends_epoch_loop l] obtain evs2 where
      e2: "trace w2 = trace w1 @ evs2" "list_all epoch_event evs2" by blast
    from s Inr l assms have "snd (run T H c w) = w2" by (simp add: run_parsed bind_prog_def)
    with e1 e2 show ?thesis by auto
  qed
qed

lemma trace_seeded_world:
  "trace (seeded_world H a (process_start env r)) =
     [SetEnviron ''CUDA_DEVICE_ORDER'' ''PCI_BUS_ID'',
      SetEnviron ''CUDA_VISIBLE_DEVICES'' (gpu_num a),
      SetCudnn ''deterministic'' True,
      SetCudnn ''benchmark'' False,
      SeedCall ''torch.manual_seed'' 42,
      SeedCall ''torch.cuda.manual_seed_all'' 42,
      SeedCall ''random.seed'' 42,
      SeedCall ''np.random.seed'' 42,
      Print_Device (if use_cuda H a (process_start env r) then ''cuda'' else ''cpu'')]"
  by (simp add: seeded_world_def process_start_def use_cuda_def)

lemma construction_not_seed: "construction_event e \<Longrightarrow> e \<noteq> SeedCall s v"
  by (cases e) auto

lemma epoch_not_seed: "epoch_event e \<Longrightarrow> e \<noteq> SeedCall s v"
  by (cases e) auto

text \<open>
  Claim C9. Whatever the command line, every seeding call that \<^verbatim>\<open>main\<close> makes has the
  value 42. When the command line is accepted, the run starts with the two environment
  variables, the two cuDNN flags and then the four seeding calls (\<^verbatim>\<open>torch.manual_seed\<close>,
  \<^verbatim>\<open>torch.cuda.manual_seed_all\<close>, \<^verbatim>\<open>random.seed\<close>, \<^verbatim>\<open>np.random.seed\<close>), each with 42, followed
  by the device banner, and no seeding call comes later. The parser declares no option
  for the seed: the record \<open>cli\<close> of all options has no such field.
\<close>

theorem seed_is_always_42:
  "(\<forall>s v. SeedCall s v \<in> set (trace (snd (main T H c (process_start env r)))) \<longrightarrow> v = 42)
   \<and> (\<forall>a. parse_args c = Inr a \<longrightarrow>
        (\<exists>banner rest. trace (snd (main T H c (process_start env r))) =
           [SetEnviron ''CUDA_DEVICE_ORDER'' ''PCI_BUS_ID'',
            SetEnviron ''CUDA_VISIBLE_DEVICES'' (gpu_num a),
            SetCudnn ''deterministic'' True,
            SetCudnn ''benchmark'' False,
            SeedCall ''torch.manual_seed'' 42,
            SeedCall ''torch.cuda.manual_seed_all'' 42,
            SeedCall ''random.seed'' 42,
            SeedCall ''np.random.seed'' 42,
            Print_Device banner] @ rest
          \<and> (\<forall>s v. SeedCall s v \<notin> set rest)))"
proof (cases "parse_args c")
  case (Inl e)
  then have "snd (main T H c (process_start env r)) = process_start env r"
    by (simp add: main_snd run_parse_error)
  with Inl show ?thesis by (simp add: process_start_def)
next
  case (Inr a)
  from run_trace [OF Inr, of T H "process_start env r"] obtain evs1 evs2 where
    t: "trace (snd (run T H c (process_start env r))) =
          trace (seeded_world H a (process_start env r)) @ evs1 @ evs2" and
    k: "list_all construction_event evs1" "list_all epoch_event evs2"
    by blast
  from k have ns: "\<forall>s v. SeedCall s v \<notin> set (evs1 @ evs2)"
    by (auto simp: list_all_iff dest: construction_not_seed epoch_not_seed)
  from t have t': "trace (snd (main T H c (process_start env r))) =
      [SetEnviron ''CUDA_DEVICE_ORDER'' ''PCI_BUS_ID'',
       SetEnviron ''CUDA_VISIBLE_DEVICES'' (gpu_num a),
       SetCudnn ''deterministic'' True,
       SetCudnn ''benchmark'' False,
       SeedCall ''torch.manual_seed'' 42,
       SeedCall ''torch.cuda.manual_seed_all'' 42,
       SeedCall ''random.seed'' 42,
       SeedCall ''np.random.seed'' 42,
       Print_Device (if use_cuda H a (process_start env r) then ''cuda'' else ''cpu'')]
      @ (evs1 @ evs2)"
    by (simp add: main_snd trace_seeded_world)
  have 1: "\<forall>s v. SeedCall s v \<in> set (trace (snd (main T H c (process_start env r)))) \<longrightarrow> v = 42"
    unfolding t' using ns by auto
  from t' ns Inr have 2: "\<forall>a. parse_args c = Inr a \<longrightarrow>
        (\<exists>banner rest. trace (snd (main T H c (process_start env r))) =
           [SetEnviron ''CUDA_DEVICE_ORDER'' ''PCI_BUS_ID'',
            SetEnviron ''CUDA_VISIBLE_DEVICES'' (gpu_num a),
            SetCudnn ''deterministic'' True,
            SetCudnn ''benchmark'' False,
            SeedCall ''torch.manual_seed'' 42,
            SeedCall ''torch.cuda.manual_seed_all'' 42,
            SeedCall ''random.seed'' 42,
            SeedCall ''np.random.seed'' 42,
            Print_Device banner] @ rest
          \<and> (\<forall>s v. SeedCall s v \<notin> set rest))"
    by (metis Inr_inject)
  from 1 2 show ?thesis by blast
qed

theorem seed_is_always_42_witness:
  "\<exists>banner rest.
      parse_args (toy_cli\<lparr>cli_epochs := Some 7, cli_lr := Some 3\<rparr>)
        = Inr (namespace (toy_cli\<lparr>cli_epochs := Some 7, cli_lr := Some 3\<rparr>) ''d'' ''resnet18'')
    \<and> trace (snd (main toy_torch toy_host (toy_cli\<lparr>cli_epochs := Some 7, cli_lr := Some 3\<rparr>)
                     (process_start Map.empty toy_rngs))) =
           [SetEnviron ''CUDA_DEVICE_ORDER'' ''PCI_BUS_ID'',
            SetEnviron ''CUDA_VISIBLE_DEVICES'' ''0'',
            SetCudnn ''deterministic'' True,
            SetCudnn ''benchmark'' False,
            SeedCall ''torch.manual_seed'' 42,
            SeedCall ''torch.cuda.manual_seed_all'' 42,
            SeedCall ''random.seed'' 42,
            SeedCall ''np.random.seed'' 42,
            Print_Device banner] @ rest
    \<and> (\<forall>s v. SeedCall s v \<notin> set rest)"
proof -
  have p: "parse_args (toy_cli\<lparr>cli_epochs := Some 7, cli_lr := Some 3\<rparr>)
        = Inr (namespace (toy_cli\<lparr>cli_epochs := Some 7, cli_lr := Some 3\<rparr>) ''d'' ''resnet18'')"
    by (simp add: parse_args_def toy_cli_def)
  have g: "gpu_num (namespace (toy_cli\<lparr>cli_epochs := Some 7, cli_lr := Some 3\<rparr>) ''d'' ''resnet18'') = ''0''"
    by (simp add: namespace_def toy_cli_def)
  from seed_is_always_42 [of toy_torch toy_host "toy_cli\<lparr>cli_epochs := Some 7, cli_lr := Some 3\<rparr>"
      Map.empty toy_rngs] p g
  show ?thesis by (metis (no_types, lifting))
qed

section \<open>An epoch count that is not positive\<close>

lemma construction_not_epoch: "construction_event e \<Longrightarrow> \<not> epoch_event e"
  by (cases e) auto

lemma epoch_loop_Nil: "epoch_loop T [] = return"
  by (rule ext) simp

lemma parse_args_epochs:
  assumes "cli_epochs c = Some e"
  shows "parse_args c =
     (case parse_args (c\<lparr>cli_epochs := None\<rparr>) of
        Inl err \<Rightarrow> Inl err
      | Inr a0 \<Rightarrow> Inr (a0\<lparr>epochs := e\<rparr>))"
  using assms by (simp add: parse_args_def namespace_def split: option.splits)

lemma parse_args_epochs_value:
  "parse_args c = Inr a \<Longrightarrow> cli_epochs c = Some e \<Longrightarrow> epochs a = e"
  by (auto simp: parse_args_def namespace_def split: option.splits if_splits)

lemma main_setup_trace:
  "\<exists>evs. trace (snd (main_setup T H a w)) = trace (seeded_world H a w) @ evs
         \<and> list_all construction_event evs"
proof -
  obtain r1 w1 where "after_banner T H a (use_cuda H a w) (seeded_world H a w) = (r1, w1)"
    by (cases "after_banner T H a (use_cuda H a w) (seeded_world H a w)")
  from appendsD [OF appends_after_banner this] this show ?thesis
    by (simp add: main_setup_split)
qed

text \<open>
  Claim C10. Let \<^verbatim>\<open>--epochs\<close> be given as zero or a negative integer. The parser treats
  the command line as it would without the option (it accepts or refuses it for other
  reasons only) and the namespace holds the value as given. \<^verbatim>\<open>range(1, epochs + 1)\<close> is
  empty, so the run is the setup alone: no training progress, no evaluation summary, no
  epoch header and no scheduler step is ever in the trace. When the setup succeeds
  \<^verbatim>\<open>main\<close> returns normally, with the device banner printed.
\<close>

theorem nonpositive_epochs_run_nothing:
  assumes "cli_epochs c = Some e" and "e \<le> 0"
  shows "parse_args c =
           (case parse_args (c\<lparr>cli_epochs := None\<rparr>) of
              Inl err \<Rightarrow> Inl err
            | Inr a0 \<Rightarrow> Inr (a0\<lparr>epochs := e\<rparr>))
       \<and> (\<forall>a. parse_args c = Inr a \<longrightarrow>
             epochs a = e \<and> [1..epochs a] = [] \<and> run T H c w = main_setup T H a w)
       \<and> (\<forall>ev \<in> set (trace (snd (main T H c (process_start env r)))). \<not> epoch_event ev)
       \<and> (\<forall>a S w'. parse_args c = Inr a
              \<and> main_setup T H a (process_start env r) = (Inr S, w') \<longrightarrow>
             main T H c (process_start env r) = (Inr (), w')
             \<and> (\<exists>banner. Print_Device banner \<in> set (trace w')))"
proof -
  have run_eq: "epochs a = e \<and> [1..epochs a] = [] \<and> run T H c w = main_setup T H a w"
    if p: "parse_args c = Inr a" for a w
  proof -
    from parse_args_epochs_value [OF p assms(1)] have e: "epochs a = e" .
    with assms(2) have "[1..epochs a] = []" by simp
    with p e show ?thesis by (simp add: run_parsed epoch_loop_Nil)
  qed
  have no_epoch: "\<forall>ev \<in> set (trace (snd (main T H c (process_start env r)))). \<not> epoch_event ev"
  proof (cases "parse_args c")
    case (Inl err)
    then show ?thesis by (simp add: main_snd run_parse_error process_start_def)
  next
    case (Inr a)
    from main_setup_trace [of T H a "process_start env r"] obtain evs where
      "trace (snd (main_setup T H a (process_start env r))) =
         trace (seeded_world H a (process_start env r)) @ evs"
      "list_all construction_event evs" by blast
    with run_eq [OF Inr] show ?thesis
      by (auto simp: main_snd trace_seeded_world list_all_iff dest: construction_not_epoch)
  qed
  have fin: "main T H c (process_start env r) = (Inr (), w')
             \<and> (\<exists>banner. Print_Device banner \<in> set (trace w'))"
    if p: "parse_args c = Inr a" and s: "main_setup T H a (process_start env r) = (Inr S, w')"
    for a S w'
  proof -
    from run_eq [OF p] s have "run T H c (process_start env r) = (Inr S, w')" by simp
    then have m: "main T H c (process_start env r) = (Inr (), w')" by (simp add: main_Inr)
    from main_setup_trace [of T H a "process_start env r"] s
    have "Print_Device (if use_cuda H a (process_start env r) then ''cuda'' else ''cpu'')
            \<in> set (trace w')"
      by (auto simp: trace_seeded_world)
    with m show ?thesis by blast
  qed
  from parse_args_epochs [OF assms(1)] run_eq no_epoch fin show ?thesis by blast
qed

lemma toy_setup_returns_epochs:
  "\<exists>S w'. main_setup toy_torch toy_host (namespace (toy_cli\<lparr>cli_epochs := Some n\<rparr>) ''d'' ''resnet18'')
             (process_start Map.empty toy_rngs) = (Inr S, w')"
  by (simp add: main_setup_split after_banner_def use_cuda_def toy_host_def namespace_def
        toy_cli_def path_join_def bind_ImageFolder bind_DataLoader bind_construct_model
        map_of_MODEL_MAP bind_Adadelta)

theorem nonpositive_epochs_run_nothing_witness:
  "\<exists>w' banner.
      parse_args (toy_cli\<lparr>cli_epochs := Some (- 3)\<rparr>) =
        Inr (namespace (toy_cli\<lparr>cli_epochs := Some (- 3)\<rparr>) ''d'' ''resnet18'')
    \<and> epochs (namespace (toy_cli\<lparr>cli_epochs := Some (- 3)\<rparr>) ''d'' ''resnet18'') = - 3
    \<and> main toy_torch toy_host (toy_cli\<lparr>cli_epochs := Some (- 3)\<rparr>)
        (process_start Map.empty toy_rngs) = (Inr (), w')
    \<and> Print_Device banner \<in> set (trace w')
    \<and> (\<forall>ev \<in> set (trace w'). \<not> epoch_event ev)"
proof -
  let ?c = "toy_cli\<lparr>cli_epochs := Some (- 3)\<rparr>"
  have p: "parse_args ?c = Inr (namespace ?c ''d'' ''resnet18'')"
    by (simp add: parse_args_def toy_cli_def)
  have e: "cli_epochs ?c = Some (- 3)" "(- 3 :: int) \<le> 0" by simp_all
  from toy_setup_returns_epochs obtain S w' where
    s: "main_setup toy_torch toy_host (namespace ?c ''d'' ''resnet18'')
          (process_start Map.empty toy_rngs) = (Inr S, w')" by blast
  note n = nonpositive_epochs_run_nothing [OF e, of toy_torch toy_host _ Map.empty toy_rngs]
  from n p s have m: "main toy_torch toy_host ?c (process_start Map.empty toy_rngs) = (Inr (), w')"
    and b: "\<exists>banner. Print_Device banner \<in> set (trace w')"
    and ep: "epochs (namespace ?c ''d'' ''resnet18'') = - 3"
    by blast+
  from n have "\<forall>ev \<in> set (trace (snd (main toy_torch toy_host ?c
                  (process_start Map.empty toy_rngs)))). \<not> epoch_event ev" by blast
  with m have "\<forall>ev \<in> set (trace w'). \<not> epoch_event ev" by simp
  with p m b ep show ?thesis by blast
qed

section \<open>Seeding and reproducibility\<close>

lemma seeded_world_rng:
  "seeded_world H a (process_start env r1) = seeded_world H a (process_start env r2)"
  by (simp add: seeded_world_def process_start_def)

lemma use_cuda_rng:
  "use_cuda H a (process_start env r1) = use_cuda H a (process_start env r2)"
  by (simp add: use_cuda_def process_start_def)

lemma main_setup_rng:
  "main_setup T H a (process_start env r1) = main_setup T H a (process_start env r2)"
  by (simp add: main_setup_split seeded_world_rng [of H a env r1 r2]
      use_cuda_rng [of H a env r1 r2])

lemma run_rng:
  "parse_args c = Inr a \<Longrightarrow>
   run T H c (process_start env r1) = run T H c (process_start env r2)"
  by (simp add: run_parsed bind_prog_def main_setup_rng [of T H a env r1 r2])

lemma run_rng_observable:
  "fst (run T H c (process_start env r1)) = fst (run T H c (process_start env r2))
   \<and> trace (snd (run T H c (process_start env r1)))
       = trace (snd (run T H c (process_start env r2)))"
proof (cases "parse_args c")
  case (Inl e)
  then show ?thesis by (simp add: run_parse_error process_start_def)
next
  case (Inr a)
  from run_rng [OF this, of T H env r1 r2] show ?thesis by simp
qed

text \<open>
  Claim C7. Two runs on the CPU path (\<^verbatim>\<open>--no_cuda\<close>) with the same command line, the same
  machine and the same libraries, whose random generators start in different states,
  give the same result and the same trace: the same initial parameters and the same
  losses printed, the first epoch's mean training loss among them. When the command line
  is accepted the two runs agree in everything. The reason is the order of the
  statements: the four seeding calls come right after the environment variables and the
  cuDNN flags, so the datasets, the loaders and the model are built, and every epoch is
  run, from generators that are all in the state that seeding with 42 gives. The library
  operations are functions of their arguments and of the generators; the scheduling of an
  accelerator is not modelled, which is why the statement is for the CPU path.
\<close>

theorem seeded_runs_agree:
  assumes "cli_no_cuda c"
  shows "fst (run T H c (process_start env r1)) = fst (run T H c (process_start env r2))
       \<and> trace (snd (run T H c (process_start env r1)))
           = trace (snd (run T H c (process_start env r2)))
       \<and> (\<forall>a. parse_args c = Inr a \<longrightarrow>
            \<not> use_cuda H a (process_start env r1)
            \<and> run T H c (process_start env r1) = run T H c (process_start env r2)
            \<and> fst (main_setup T H a (process_start env r1))
                = fst (main_setup T H a (process_start env r2))
            \<and> main_setup T H a (process_start env r1)
                = after_banner T H a False (seeded_world H a (process_start env r1))
            \<and> rng (seeded_world H a (process_start env r1))
                = \<lparr>torch_gen = Seeded 42 0, cuda_gen = Seeded 42 0, py_gen = Seeded 42 0,
                   np_gen = Seeded 42 0\<rparr>
            \<and> (\<exists>rest. trace (snd (run T H c (process_start env r1))) =
                  [SetEnviron ''CUDA_DEVICE_ORDER'' ''PCI_BUS_ID'',
                   SetEnviron ''CUDA_VISIBLE_DEVICES'' (gpu_num a),
                   SetCudnn ''deterministic'' True,
                   SetCudnn ''benchmark'' False,
                   SeedCall ''torch.manual_seed'' 42,
                   SeedCall ''torch.cuda.manual_seed_all'' 42,
                   SeedCall ''random.seed'' 42,
                   SeedCall ''np.random.seed'' 42] @ rest))"
proof -
  have inner: "\<not> use_cuda H a (process_start env r1)
            \<and> run T H c (process_start env r1) = run T H c (process_start env r2)
            \<and> fst (main_setup T H a (process_start env r1))
                = fst (main_setup T H a (process_start env r2))
            \<and> main_setup T H a (process_start env r1)
                = after_banner T H a False (seeded_world H a (process_start env r1))
            \<and> rng (seeded_world H a (process_start env r1))
                = \<lparr>torch_gen = Seeded 42 0, cuda_gen = Seeded 42 0, py_gen = Seeded 42 0,
                   np_gen = Seeded 42 0\<rparr>
            \<and> (\<exists>rest. trace (snd (run T H c (process_start env r1))) =
                  [SetEnviron ''CUDA_DEVICE_ORDER'' ''PCI_BUS_ID'',
                   SetEnviron ''CUDA_VISIBLE_DEVICES'' (gpu_num a),
                   SetCudnn ''deterministic'' True,
                   SetCudnn ''benchmark'' False,
                   SeedCall ''torch.manual_seed'' 42,
                   SeedCall ''torch.cuda.manual_seed_all'' 42,
                   SeedCall ''random.seed'' 42,
                   SeedCall ''np.random.seed'' 42] @ rest)"
    if p: "parse_args c = Inr a" for a
  proof -
    from p assms have nc: "no_cuda a"
      by (auto simp: parse_args_def namespace_def split: option.splits if_splits)
    then have uc: "\<not> use_cuda H a (process_start env r1)" by (simp add: use_cuda_def)
    from run_trace [OF p, of T H "process_start env r1"]
    have "\<exists>rest. trace (snd (run T H c (process_start env r1))) =
                  [SetEnviron ''CUDA_DEVICE_ORDER'' ''PCI_BUS_ID'',
                   SetEnviron ''CUDA_VISIBLE_DEVICES'' (gpu_num a),
                   SetCudnn ''deterministic'' True,
                   SetCudnn ''benchmark'' False,
                   SeedCall ''torch.manual_seed'' 42,
                   SeedCall ''torch.cuda.manual_seed_all'' 42,
                   SeedCall ''random.seed'' 42,
                   SeedCall ''np.random.seed'' 42] @ rest"
      by (auto simp: trace_seeded_world)
    moreover have "rng (seeded_world H a (process_start env r1))
                = \<lparr>torch_gen = Seeded 42 0, cuda_gen = Seeded 42 0, py_gen = Seeded 42 0,
                   np_gen = Seeded 42 0\<rparr>"
      by (simp add: seeded_world_def)
    moreover from uc have "main_setup T H a (process_start env r1)
                = after_banner T H a False (seeded_world H a (process_start env r1))"
      by (simp add: main_setup_split)
    moreover have "fst (main_setup T H a (process_start env r1))
                = fst (main_setup T H a (process_start env r2))"
      using main_setup_rng [of T H a env r1 r2] by simp
    ultimately show ?thesis using uc run_rng [OF p, of T H env r1 r2] by blast
  qed
  from run_rng_observable [of T H c env r1 r2] inner show ?thesis by blast
qed

theorem seeded_runs_agree_witness:
  "cli_no_cuda toy_cli
   \<and> fst (run toy_torch toy_host toy_cli (process_start Map.empty toy_rngs))
     = fst (run toy_torch toy_host toy_cli (process_start Map.empty
          \<lparr>torch_gen = Entropy 9, cuda_gen = Entropy 8, py_gen = Entropy 7, np_gen = Entropy 6\<rparr>))
   \<and> trace (snd (run toy_torch toy_host toy_cli (process_start Map.empty toy_rngs)))
     = trace (snd (run toy_torch toy_host toy_cli (process_start Map.empty
          \<lparr>torch_gen = Entropy 9, cuda_gen = Entropy 8, py_gen = Entropy 7, np_gen = Entropy 6\<rparr>)))
   \<and> toy_rngs \<noteq> \<lparr>torch_gen = Entropy 9, cuda_gen = Entropy 8, py_gen = Entropy 7,
                   np_gen = Entropy 6\<rparr>"
proof -
  have n: "cli_no_cuda toy_cli" by (simp add: toy_cli_def)
  from seeded_runs_agree [OF n, of toy_torch toy_host Map.empty toy_rngs
      "\<lparr>torch_gen = Entropy 9, cuda_gen = Entropy 8, py_gen = Entropy 7, np_gen = Entropy 6\<rparr>"] n
  show ?thesis by (simp add: toy_rngs_def)
qed

section \<open>The learning-rate schedule\<close>

lemma dropWhile_training:
  assumes "list_all training_event tr" and "list_all evaluation_event ev"
  shows "dropWhile training_event (tr @ ev @ SchedulerStep # rest) = ev @ SchedulerStep # rest"
proof -
  from assms(1) have "dropWhile training_event (tr @ ev @ SchedulerStep # rest)
      = dropWhile training_event (ev @ SchedulerStep # rest)"
    by (intro dropWhile_append2) (simp add: list_all_iff)
  also have "\<dots> = ev @ SchedulerStep # rest"
  proof (cases ev)
    case Nil
    then show ?thesis by simp
  next
    case (Cons x xs)
    with assms(2) have "evaluation_event x" by simp
    then have "\<not> training_event x" by (cases x) auto
    with Cons show ?thesis by simp
  qed
  finally show ?thesis .
qed

lemma dropWhile_evaluation:
  assumes "list_all evaluation_event ev"
  shows "dropWhile evaluation_event (ev @ SchedulerStep # rest) = SchedulerStep # rest"
proof -
  from assms have "dropWhile evaluation_event (ev @ SchedulerStep # rest)
      = dropWhile evaluation_event (SchedulerStep # rest)"
    by (intro dropWhile_append2) (simp add: list_all_iff)
  then show ?thesis by simp
qed

lemma epochs_trace_Cons:
  assumes "list_all training_event tr" and "list_all evaluation_event ev"
    and "epochs_trace es rest"
  shows "epochs_trace (e # es) (Print_Epoch e # tr @ ev @ SchedulerStep # rest)"
  using assms by (simp add: dropWhile_training dropWhile_evaluation)

lemma train_batch_lr:
  assumes "train_batch T criterion n i batch v w = (Inr v', w')"
  shows "opt_lr (tv_learner v') = opt_lr (tv_learner v)"
  using assms
  by (cases "criterion (fst (call_model T
                ((tv_learner v)\<lparr>grads := zero_grad T (grads (tv_learner v))\<rparr>)
                (map fst batch))) (map snd batch)")
     (auto simp: train_batch_def Let_def call_model_def split: prod.splits if_splits)

lemma train_loop_lr:
  assumes "train_loop T criterion n i batches v w = (Inr v', w')"
  shows "opt_lr (tv_learner v') = opt_lr (tv_learner v)"
  using assms
proof (induction batches arbitrary: i v w)
  case Nil
  then show ?case by simp
next
  case (Cons b bs)
  from Cons.prems obtain v1 w1 where
    s1: "train_batch T criterion n i b v w = (Inr v1, w1)" and
    s2: "train_loop T criterion n (Suc i) bs v1 w1 = (Inr v', w')"
    by (auto simp: bind_prog_Inr)
  from train_batch_lr [OF s1] Cons.IH [OF s2] show ?case by simp
qed

lemma train_lr:
  assumes "train T ld L criterion w = (Inr L', w')"
  shows "opt_lr L' = opt_lr L"
proof -
  from assms obtain u w0 batches w1 v w2 where
    "train_loop T criterion (len_loader ld) 0 batches
       \<lparr>tv_learner = L\<lparr>training := True\<rparr>, training_loss_sum = 0, processed_samples = 0\<rparr> w1
     = (Inr v, w2)"
    and fin: "(if length (samples (dataset ld)) = 0 then raise ZeroDivisionError
          else bind_prog (emit (PbarPostfix (training_loss_sum v / real (length (samples (dataset ld))))))
                 (\<lambda>_. bind_prog (emit Print_TrainElapsed) (\<lambda>_. return (tv_learner v)))) w2
        = (Inr L', w')"
    unfolding train_def Let_def bind_prog_Inr by blast
  from train_loop_lr [OF this(1)] have "opt_lr (tv_learner v) = opt_lr L" by simp
  moreover from fin have "L' = tv_learner v"
    by (cases "length (samples (dataset ld)) = 0") (auto simp: emit_def bind_prog_def)
  ultimately show ?thesis by simp
qed


lemma step_times_StepLR:
  assumes "step_size sch = 1"
  shows "step_times n (sch, L) =
           (sch\<lparr>last_epoch := last_epoch sch + n\<rparr>, L\<lparr>opt_lr := opt_lr L * gamma sch ^ n\<rparr>)"
proof (induction n)
  case 0
  show ?case by simp
next
  case (Suc n)
  with assms show ?case by (simp add: scheduler_step_def)
qed

lemma test_learner:
  assumes "test T ld L criterion w = (Inr L', w')"
  shows "L' = L\<lparr>training := False\<rparr>"
  using test_twice [OF assms] by blast

lemma epoch_loop_Inr:
  assumes "epoch_loop T es S w = (Inr S', w')" and "step_size (the_scheduler S) = 1"
  shows "opt_lr (the_learner S') = opt_lr (the_learner S) * gamma (the_scheduler S) ^ length es
       \<and> the_scheduler S' =
           (the_scheduler S)\<lparr>last_epoch := last_epoch (the_scheduler S) + length es\<rparr>
       \<and> (\<exists>evs. trace w' = trace w @ evs \<and> epochs_trace es evs)"
  using assms
proof (induction es arbitrary: S w)
  case Nil
  then show ?case by simp
next
  case (Cons e es)
  let ?w0 = "w\<lparr>trace := trace w @ [Print_Epoch e]\<rparr>"
  from Cons.prems(1) obtain L1 w1 L2 w2 where
    tr: "train T (train_loader S) (the_learner S) CrossEntropyLoss_sum ?w0 = (Inr L1, w1)" and
    te: "test T (test_loader S) L1 CrossEntropyLoss_sum w1 = (Inr L2, w2)" and
    rest: "epoch_loop T es
             (S\<lparr>the_learner := snd (scheduler_step (the_scheduler S) L2),
                the_scheduler := fst (scheduler_step (the_scheduler S) L2)\<rparr>)
             (w2\<lparr>trace := trace w2 @ [SchedulerStep]\<rparr>) = (Inr S', w')"
    by (auto simp: bind_prog_Inr)
  let ?S1 = "S\<lparr>the_learner := snd (scheduler_step (the_scheduler S) L2),
               the_scheduler := fst (scheduler_step (the_scheduler S) L2)\<rparr>"
  from appendsD [OF appends_train tr] obtain evs1 where
    e1: "trace w1 = trace w @ Print_Epoch e # evs1" "list_all training_event evs1" by auto
  from appendsD [OF appends_test te] obtain evs2 where
    e2: "trace w2 = trace w1 @ evs2" "list_all evaluation_event evs2" by auto
  from train_lr [OF tr] test_learner [OF te] have lr2: "opt_lr L2 = opt_lr (the_learner S)"
    by simp
  from Cons.prems(2) have st: "step_size (the_scheduler ?S1) = 1"
    by (simp add: scheduler_step_def)
  from Cons.IH [OF rest st] obtain evs3 where
    ih: "opt_lr (the_learner S') = opt_lr (the_learner ?S1) * gamma (the_scheduler ?S1) ^ length es"
        "the_scheduler S' =
           (the_scheduler ?S1)\<lparr>last_epoch := last_epoch (the_scheduler ?S1) + length es\<rparr>"
        "trace w' = trace w2 @ SchedulerStep # evs3" "epochs_trace es evs3"
    by auto
  from Cons.prems(2) lr2 have "opt_lr (the_learner ?S1) = opt_lr (the_learner S) * gamma (the_scheduler S)"
    and "gamma (the_scheduler ?S1) = gamma (the_scheduler S)"
    and "the_scheduler ?S1 = (the_scheduler S)\<lparr>last_epoch := Suc (last_epoch (the_scheduler S))\<rparr>"
    by (simp_all add: scheduler_step_def)
  with ih(1,2) have a: "opt_lr (the_learner S') =
      opt_lr (the_learner S) * gamma (the_scheduler S) ^ length (e # es)"
    and b: "the_scheduler S' =
      (the_scheduler S)\<lparr>last_epoch := last_epoch (the_scheduler S) + length (e # es)\<rparr>"
    by simp_all
  from e1 e2 ih(3) have "trace w' = trace w @ (Print_Epoch e # evs1 @ evs2 @ SchedulerStep # evs3)"
    by simp
  moreover from e1(2) e2(2) ih(4)
  have "epochs_trace (e # es) (Print_Epoch e # evs1 @ evs2 @ SchedulerStep # evs3)"
    by (rule epochs_trace_Cons)
  ultimately show ?case using a b by blast
qed

text \<open>
  Claim C3. From a learning rate \<open>r > 0\<close>, \<open>n\<close> steps of the scheduler that \<^verbatim>\<open>main\<close> builds
  (\<^verbatim>\<open>StepLR\<close> with step size 1 and factor 0.7) give the rate \<open>r * 0.7 ^ n\<close>, which is
  positive, and each step gives a smaller rate than the one before. In a run of \<^verbatim>\<open>main\<close>
  that returns, the trace after the setup is a sequence of epochs numbered from 1 to
  \<^verbatim>\<open>args.epochs\<close>, each ending with exactly one scheduler step after its training and its
  evaluation, and the rate at the end is \<open>r * 0.7 ^ epochs\<close> for the initial rate \<open>r\<close> of
  the command line. Rates are real numbers here, so the equation is exact.
\<close>

theorem schedule_decay:
  assumes "0 < r"
  shows "opt_lr (snd (step_times n (StepLR 1 0.7, L\<lparr>opt_lr := r\<rparr>))) = r * 0.7 ^ n
       \<and> 0 < opt_lr (snd (step_times n (StepLR 1 0.7, L\<lparr>opt_lr := r\<rparr>)))
       \<and> opt_lr (snd (step_times (Suc n) (StepLR 1 0.7, L\<lparr>opt_lr := r\<rparr>)))
           < opt_lr (snd (step_times n (StepLR 1 0.7, L\<lparr>opt_lr := r\<rparr>)))
       \<and> (\<forall>c a S' w w'. parse_args c = Inr a \<and> lr a = r \<and> run T H c w = (Inr S', w') \<longrightarrow>
            (\<exists>S0 w0 evs. main_setup T H a w = (Inr S0, w0) \<and> trace w' = trace w0 @ evs
                \<and> epochs_trace [1..epochs a] evs)
            \<and> opt_lr (the_learner S') = r * 0.7 ^ nat (epochs a))"
proof -
  have s: "step_times k (StepLR 1 0.7, L\<lparr>opt_lr := r\<rparr>) =
        ((StepLR 1 0.7)\<lparr>last_epoch := k\<rparr>, L\<lparr>opt_lr := r * 0.7 ^ k\<rparr>)" for k
    using step_times_StepLR [of "StepLR 1 0.7" k "L\<lparr>opt_lr := r\<rparr>"] by (simp add: StepLR_def)
  from assms have lt: "r * 0.7 ^ Suc n < r * 0.7 ^ n" by simp
  have main_part: "(\<exists>S0 w0 evs. main_setup T H a w = (Inr S0, w0) \<and> trace w' = trace w0 @ evs
                \<and> epochs_trace [1..epochs a] evs)
            \<and> opt_lr (the_learner S') = r * 0.7 ^ nat (epochs a)"
    if "parse_args c = Inr a" "lr a = r" "run T H c w = (Inr S', w')" for c a S' w w'
  proof -
    from that(1,3) obtain S0 w0 where
      su: "main_setup T H a w = (Inr S0, w0)" and
      lp: "epoch_loop T [1..epochs a] S0 w0 = (Inr S', w')"
      by (auto simp: run_parsed bind_prog_Inr)
    from main_setup_Inr(9,10) [OF su] that(2) have
      sch: "the_scheduler S0 = StepLR 1 0.7" and l0: "opt_lr (the_learner S0) = r" by simp_all
    from sch have "step_size (the_scheduler S0) = 1" by (simp add: StepLR_def)
    from epoch_loop_Inr [OF lp this] sch l0 su show ?thesis
      by (auto simp: StepLR_def)
  qed
  from assms lt main_part show ?thesis unfolding s by (simp del: power_Suc) blast
qed


lemma toy_epochs: "epochs (namespace toy_cli ''d'' ''resnet18'') = 1"
  "lr (namespace toy_cli ''d'' ''resnet18'') = 0.1"
  by (simp_all add: namespace_def toy_cli_def)

lemma bind_iterate:
  "iterate T ld w = (Inr batches, w1) \<Longrightarrow> bind_prog (iterate T ld) f w = f batches w1"
  by (simp add: bind_prog_def)

lemma toy_setup_session:
  "\<exists>w0. main_setup toy_torch toy_host (namespace toy_cli ''d'' ''resnet18'')
          (process_start Map.empty toy_rngs) = (Inr toy_session, w0)"
  by (simp add: main_setup_split after_banner_def use_cuda_def toy_host_def namespace_def
        toy_cli_def path_join_def bind_ImageFolder bind_DataLoader bind_construct_model
        map_of_MODEL_MAP bind_Adadelta toy_session_def toy_learner_def,
      simp add: toy_torch_def)

lemma bind_assoc:
  "bind_prog (bind_prog m f) g = bind_prog m (\<lambda>a. bind_prog (f a) g)"
  by (rule ext) (auto simp: bind_prog_def split: prod.splits sum.splits)

lemma toy_iterate_train:
  "iterate toy_torch (train_loader toy_session) = (\<lambda>w. (Inr [[(1, 1)], [(2, 1)]], w))"
  by (rule ext)
     (simp add: iterate_def sampler_def upt_2 apply_transform_def toy_torch_def chunks.simps
      toy_session_def)

lemma toy_iterate_test:
  "iterate toy_torch (test_loader toy_session) = (\<lambda>w. (Inr [[(3, 0), (4, 1)]], w))"
  by (rule ext)
     (simp add: iterate_def sampler_def upt_2 apply_transform_def toy_torch_def chunks.simps
      toy_session_def)

lemma toy_epoch_returns:
  "\<exists>S' w'. epoch_loop toy_torch [1] toy_session w0 = (Inr S', w')"
  by (simp add: train_def test_def Let_def toy_iterate_train toy_iterate_test
        bind_prog_def emit_def return_def raise_def lift_result_def del: bind_emit,
      simp add: toy_session_def len_loader_def train_batch_def test_batch_def call_model_def
        Let_def CrossEntropyLoss_sum_def toy_torch_def toy_learner_def
        bind_prog_def emit_def return_def raise_def lift_result_def del: bind_emit)

lemma toy_run_returns:
  "\<exists>S' w'. run toy_torch toy_host toy_cli (process_start Map.empty toy_rngs) = (Inr S', w')"
proof -
  from toy_setup_session obtain w0 where
    "main_setup toy_torch toy_host (namespace toy_cli ''d'' ''resnet18'')
          (process_start Map.empty toy_rngs) = (Inr toy_session, w0)" by blast
  moreover from toy_epoch_returns obtain S' w' where
    "epoch_loop toy_torch [1] toy_session w0 = (Inr S', w')" by blast
  ultimately show ?thesis
    by (simp add: run_parsed [OF toy_parse] toy_epochs bind_prog_def)
qed

theorem schedule_decay_witness:
  "\<exists>S' w' S0 w0 evs.
      run toy_torch toy_host toy_cli (process_start Map.empty toy_rngs) = (Inr S', w')
    \<and> main_setup toy_torch toy_host (namespace toy_cli ''d'' ''resnet18'')
          (process_start Map.empty toy_rngs) = (Inr S0, w0)
    \<and> trace w' = trace w0 @ evs \<and> epochs_trace [1] evs
    \<and> opt_lr (the_learner S') = 0.1 * 0.7
    \<and> opt_lr (snd (step_times 3 (StepLR 1 0.7, toy_learner\<lparr>opt_lr := 0.1\<rparr>))) = 0.1 * 0.7 ^ 3
    \<and> opt_lr (snd (step_times 3 (StepLR 1 0.7, toy_learner\<lparr>opt_lr := 0.1\<rparr>)))
        < opt_lr (snd (step_times 2 (StepLR 1 0.7, toy_learner\<lparr>opt_lr := 0.1\<rparr>)))"
proof -
  from toy_run_returns obtain S' w' where
    r: "run toy_torch toy_host toy_cli (process_start Map.empty toy_rngs) = (Inr S', w')"
    by blast
  have pos: "(0::real) < 0.1" by simp
  note d3 = schedule_decay [OF pos, of 3 toy_learner toy_torch toy_host]
  note d2 = schedule_decay [OF pos, of 2 toy_learner toy_torch toy_host]
  from d3 toy_parse toy_epochs r have
    "(\<exists>S0 w0 evs. main_setup toy_torch toy_host (namespace toy_cli ''d'' ''resnet18'')
          (process_start Map.empty toy_rngs) = (Inr S0, w0) \<and> trace w' = trace w0 @ evs
        \<and> epochs_trace [1..epochs (namespace toy_cli ''d'' ''resnet18'')] evs)
     \<and> opt_lr (the_learner S') = 0.1 * 0.7 ^ nat (epochs (namespace toy_cli ''d'' ''resnet18''))"
    by blast
  then have "(\<exists>S0 w0 evs. main_setup toy_torch toy_host (namespace toy_cli ''d'' ''resnet18'')
          (process_start Map.empty toy_rngs) = (Inr S0, w0) \<and> trace w' = trace w0 @ evs
        \<and> epochs_trace [1] evs)
     \<and> opt_lr (the_learner S') = 0.1 * 0.7"
    by (simp add: toy_epochs)
  moreover from d3 have
    "opt_lr (snd (step_times 3 (StepLR 1 0.7, toy_learner\<lparr>opt_lr := 0.1\<rparr>))) = 0.1 * 0.7 ^ 3"
    by blast
  moreover from d2 have
    "opt_lr (snd (step_times (Suc 2) (StepLR 1 0.7, toy_learner\<lparr>opt_lr := 0.1\<rparr>)))
        < opt_lr (snd (step_times 2 (StepLR 1 0.7, toy_learner\<lparr>opt_lr := 0.1\<rparr>)))"
    by blast
  then have
    "opt_lr (snd (step_times 3 (StepLR 1 0.7, toy_learner\<lparr>opt_lr := 0.1\<rparr>)))
        < opt_lr (snd (step_times 2 (StepLR 1 0.7, toy_learner\<lparr>opt_lr := 0.1\<rparr>)))"
    by (simp only: eval_nat_numeral)
  ultimately show ?thesis using r by blast
qed

section \<open>The mean training loss of an epoch\<close>

lemma train_batch_Inr:
  assumes "train_batch T criterion n i batch v w = (Inr v', w')"
  shows "tv_learner v' = after_batch T (tv_learner v) batch
       \<and> training_loss_sum v' = training_loss_sum v + batch_loss T criterion (tv_learner v) batch"
  using assms
  by (cases "criterion (forward T (training (tv_learner v)) (params (tv_learner v))
                (buffers (tv_learner v)) (map fst batch)) (map snd batch)")
     (auto simp: train_batch_def Let_def call_model_def after_batch_def batch_loss_def
           case_prod_beta split: if_splits)

lemma train_loop_Inr:
  assumes "train_loop T criterion n i batches v w = (Inr v', w')"
  shows "training_loss_sum v' =
           training_loss_sum v + sum_list (losses_along T criterion (tv_learner v) batches)"
  using assms
proof (induction batches arbitrary: i v w)
  case Nil
  then show ?case by simp
next
  case (Cons b bs)
  from Cons.prems obtain v1 w1 where
    s1: "train_batch T criterion n i b v w = (Inr v1, w1)" and
    s2: "train_loop T criterion n (Suc i) bs v1 w1 = (Inr v', w')"
    by (auto simp: bind_prog_Inr)
  from train_batch_Inr [OF s1] Cons.IH [OF s2] show ?case by simp
qed

lemma iterate_trace:
  "fst (iterate T ld (w\<lparr>trace := t\<rparr>)) = fst (iterate T ld w)"
  by (simp add: iterate_def Let_def case_prod_beta)

lemma train_Inr:
  assumes "train T ld L criterion w = (Inr L', w')"
  shows "\<exists>batches wi pre. iterate T ld w = (Inr batches, wi)
       \<and> 0 < length (samples (dataset ld))
       \<and> trace w' = pre @
           [PbarPostfix (sum_list (losses_along T criterion (L\<lparr>training := True\<rparr>) batches)
                          / real (length (samples (dataset ld)))),
            Print_TrainElapsed]"
proof -
  let ?n = "length (samples (dataset ld))"
  let ?w0 = "w\<lparr>trace := trace w @ [PbarOpen ?n]\<rparr>"
  from assms obtain batches w1 v w2 where
    it: "iterate T ld ?w0 = (Inr batches, w1)" and
    lp: "train_loop T criterion (len_loader ld) 0 batches
           \<lparr>tv_learner = L\<lparr>training := True\<rparr>, training_loss_sum = 0, processed_samples = 0\<rparr> w1
         = (Inr v, w2)" and
    fin: "(if ?n = 0 then raise ZeroDivisionError
           else bind_prog (emit (PbarPostfix (training_loss_sum v / real ?n)))
                  (\<lambda>_. bind_prog (emit Print_TrainElapsed) (\<lambda>_. return (tv_learner v)))) w2
          = (Inr L', w')"
    unfolding train_def Let_def bind_prog_Inr by (auto simp: emit_def)
  from fin have n: "0 < ?n" by (cases "?n = 0") simp_all
  with fin have tr: "trace w' = trace w2 @ [PbarPostfix (training_loss_sum v / real ?n),
      Print_TrainElapsed]"
    by (auto simp: emit_def bind_prog_def)
  from train_loop_Inr [OF lp] have
    "training_loss_sum v = sum_list (losses_along T criterion (L\<lparr>training := True\<rparr>) batches)"
    by simp
  moreover from it iterate_trace [of T ld "trace w @ [PbarOpen ?n]" w]
  obtain wi where "iterate T ld w = (Inr batches, wi)"
    by (cases "iterate T ld w") simp
  ultimately show ?thesis using n tr
    by (intro exI [of _ batches] exI [of _ wi] exI [of _ "trace w2"]) simp
qed


lemma losses_along_frozen:
  assumes "\<And>K batch. set batch \<subseteq> A \<Longrightarrow>
             batch_loss T criterion K batch = sum_list (map (\<lambda>(x, y). l x y) batch)"
    and "set (concat batches) \<subseteq> A"
  shows "sum_list (losses_along T criterion L batches)
           = sum_list (map (\<lambda>(x, y). l x y) (concat batches))"
  using assms(2) by (induction batches arbitrary: L) (simp_all add: assms(1))

lemma iterate_batch_size:
  "\<exists>xs wi. \<forall>n. iterate T (ld\<lparr>loader_batch_size := n\<rparr>) w = (Inr (chunks n xs), wi)"
  by (simp add: iterate_def Let_def case_prod_beta) blast

text \<open>Claim C1 as it is stated does not hold. The network of \<open>toy_torch\<close> has one weight,
  which every optimizer step increases by one, and its logits for any input are the weight
  and 0. On the two samples of \<open>toy_train_loader\<close>, an epoch in batches of one sample
  reports the mean loss \<open>(ln 2 + ln (exp 1 + 1)) / 2\<close>, since the second sample is seen after
  one update; an epoch with both samples in one batch reports \<open>ln 2\<close>. The two runs start
  from the same learner and the same dataset, and differ in the batch size only.\<close>

theorem epoch_mean_loss_counterexample:
  "train toy_torch (toy_train_loader (Suc 0)) toy_learner CrossEntropyLoss_sum
        (process_start Map.empty toy_rngs) =
      (Inr (toy_learner\<lparr>params := 2\<rparr>),
       (process_start Map.empty toy_rngs)\<lparr>trace :=
          [PbarOpen 2, PbarUpdate 2, PbarPostfix (ln (exp 1 + 1))] @
          [PbarPostfix ((ln 2 + ln (exp 1 + 1)) / 2), Print_TrainElapsed]\<rparr>)
   \<and> train toy_torch (toy_train_loader 2) toy_learner CrossEntropyLoss_sum
        (process_start Map.empty toy_rngs) =
      (Inr (toy_learner\<lparr>params := 1\<rparr>),
       (process_start Map.empty toy_rngs)\<lparr>trace :=
          [PbarOpen 2, PbarUpdate 2, PbarPostfix (ln 2)] @
          [PbarPostfix (ln 2), Print_TrainElapsed]\<rparr>)
   \<and> (ln 2 + ln (exp 1 + 1)) / 2 \<noteq> ln (2::real)"
proof -
  have i1: "iterate toy_torch (toy_train_loader (Suc 0)) = (\<lambda>w. (Inr [[(1, 1)], [(2, 1)]], w))"
    by (rule ext)
       (simp add: iterate_def sampler_def upt_2 apply_transform_def toy_torch_def chunks.simps
          toy_train_loader_def)
  have i2: "iterate toy_torch (toy_train_loader 2) = (\<lambda>w. (Inr [[(1, 1), (2, 1)]], w))"
    by (rule ext)
       (simp add: iterate_def sampler_def upt_2 apply_transform_def toy_torch_def chunks.simps
          toy_train_loader_def)
  have t1: "train toy_torch (toy_train_loader (Suc 0)) toy_learner CrossEntropyLoss_sum
        (process_start Map.empty toy_rngs) =
      (Inr (toy_learner\<lparr>params := 2\<rparr>),
       (process_start Map.empty toy_rngs)\<lparr>trace :=
          [PbarOpen 2, PbarUpdate 2, PbarPostfix (ln (exp 1 + 1))] @
          [PbarPostfix ((ln 2 + ln (exp 1 + 1)) / 2), Print_TrainElapsed]\<rparr>)"
    by (simp add: train_def Let_def i1 bind_prog_def emit_def return_def raise_def
          lift_result_def del: bind_emit,
        simp add: toy_train_loader_def len_loader_def train_batch_def call_model_def Let_def
          CrossEntropyLoss_sum_def cross_entropy_def toy_torch_def toy_learner_def
          process_start_def bind_prog_def emit_def return_def raise_def lift_result_def
          del: bind_emit)
  have t2: "train toy_torch (toy_train_loader 2) toy_learner CrossEntropyLoss_sum
        (process_start Map.empty toy_rngs) =
      (Inr (toy_learner\<lparr>params := 1\<rparr>),
       (process_start Map.empty toy_rngs)\<lparr>trace :=
          [PbarOpen 2, PbarUpdate 2, PbarPostfix (ln 2)] @
          [PbarPostfix (ln 2), Print_TrainElapsed]\<rparr>)"
    by (simp add: train_def Let_def i2 bind_prog_def emit_def return_def raise_def
          lift_result_def del: bind_emit,
        simp add: toy_train_loader_def len_loader_def train_batch_def call_model_def Let_def
          CrossEntropyLoss_sum_def cross_entropy_def toy_torch_def toy_learner_def
          process_start_def bind_prog_def emit_def return_def raise_def lift_result_def
          del: bind_emit)
  have "exp (1::real) \<noteq> 1" by simp
  then have "ln (exp 1 + 1) \<noteq> ln (2::real)"
    by (simp add: add_pos_pos)
  then have ne: "(ln 2 + ln (exp 1 + 1)) / 2 \<noteq> ln (2::real)" by simp
  from t1 t2 ne show ?thesis by blast
qed

text \<open>Claim C1, amended. Whenever \<^verbatim>\<open>train\<close> returns, the last value it reports (the postfix
  set after the loop, followed only by the elapsed time) is the sum of the sum-reduced
  losses of the batches, each taken with the parameters at that point of the epoch, divided
  by the number of samples of the dataset of the loader: the dataset is not empty, and the
  batch size does not enter the divisor, whether or not the last batch is smaller. If
  moreover the loss of a batch is the sum over its samples of a loss that depends neither
  on the learner nor on the batch, then training from the same start with any other
  positive batch size reports that same value.\<close>

theorem epoch_mean_loss:
  assumes "train T ld L criterion w = (Inr L', w')"
  shows "\<exists>batches wi pre.
      iterate T ld w = (Inr batches, wi)
    \<and> 0 < length (samples (dataset ld))
    \<and> trace w' = pre @
        [PbarPostfix (sum_list (losses_along T criterion (L\<lparr>training := True\<rparr>) batches)
                       / real (length (samples (dataset ld)))),
         Print_TrainElapsed]
    \<and> ((\<exists>l. \<forall>K batch. set batch \<subseteq> set (concat batches) \<longrightarrow>
              batch_loss T criterion K batch = sum_list (map (\<lambda>(x, y). l x y) batch))
         \<and> 0 < loader_batch_size ld \<longrightarrow>
         (\<forall>n L2 w2. 0 < n
             \<and> train T (ld\<lparr>loader_batch_size := n\<rparr>) L criterion w = (Inr L2, w2) \<longrightarrow>
            (\<exists>pre2. trace w2 = pre2 @
               [PbarPostfix (sum_list (losses_along T criterion (L\<lparr>training := True\<rparr>) batches)
                              / real (length (samples (dataset ld)))),
                Print_TrainElapsed])))"
proof -
  let ?N = "length (samples (dataset ld))"
  let ?L0 = "L\<lparr>training := True\<rparr>"
  from train_Inr [OF assms] obtain batches wi pre where
    it: "iterate T ld w = (Inr batches, wi)" and n: "0 < ?N" and
    tr: "trace w' = pre @
        [PbarPostfix (sum_list (losses_along T criterion ?L0 batches) / real ?N),
         Print_TrainElapsed]"
    by blast
  from iterate_batch_size [of T ld w] obtain xs wj where
    all: "\<And>n. iterate T (ld\<lparr>loader_batch_size := n\<rparr>) w = (Inr (chunks n xs), wj)" by blast
  from all [of "loader_batch_size ld"] it have b: "batches = chunks (loader_batch_size ld) xs"
    by simp
  have second: "\<exists>pre2. trace w2 = pre2 @
               [PbarPostfix (sum_list (losses_along T criterion ?L0 batches) / real ?N),
                Print_TrainElapsed]"
    if fr: "\<forall>K batch. set batch \<subseteq> set (concat batches) \<longrightarrow>
              batch_loss T criterion K batch = sum_list (map (\<lambda>(x, y). l x y) batch)"
      and bs: "0 < loader_batch_size ld" and pos: "0 < k"
      and t2: "train T (ld\<lparr>loader_batch_size := k\<rparr>) L criterion w = (Inr L2, w2)"
    for l k L2 w2
  proof -
    from b bs have c1: "concat batches = xs" by (simp add: concat_chunks)
    from pos have c2: "concat (chunks k xs) = xs" by (simp add: concat_chunks)
    from fr c1 have fr': "\<And>K batch. set batch \<subseteq> set xs \<Longrightarrow>
        batch_loss T criterion K batch = sum_list (map (\<lambda>(x, y). l x y) batch)" by simp
    have s1: "sum_list (losses_along T criterion ?L0 batches)
        = sum_list (map (\<lambda>(x, y). l x y) xs)"
      using losses_along_frozen [of "set xs" T criterion l batches ?L0] fr' c1 by simp
    have s2: "sum_list (losses_along T criterion ?L0 (chunks k xs))
        = sum_list (map (\<lambda>(x, y). l x y) xs)"
      using losses_along_frozen [of "set xs" T criterion l "chunks k xs" ?L0] fr' c2 by simp
    from train_Inr [OF t2] all [of k] obtain pre2 where
      "trace w2 = pre2 @
        [PbarPostfix (sum_list (losses_along T criterion ?L0 (chunks k xs)) / real ?N),
         Print_TrainElapsed]"
      by auto
    with s1 s2 show ?thesis by simp
  qed
  show ?thesis
    apply (intro exI [of _ batches] exI [of _ wi] exI [of _ pre] conjI it n tr)
    using second by blast
qed

lemma CrossEntropyLoss_sum_rows:
  assumes "\<forall>p \<in> set batch. snd p < length (f (fst p))"
  shows "CrossEntropyLoss_sum (map f (map fst batch)) (map snd batch)
           = Inr (sum_list (map (\<lambda>(x, y). cross_entropy (f x) y) batch))"
proof -
  have z: "zip (map f (map fst batch)) (map snd batch) = map (\<lambda>p. (f (fst p), snd p)) batch"
    by (induction batch) simp_all
  have "list_all (\<lambda>(row, t). t < length row) (map (\<lambda>p. (f (fst p), snd p)) batch)"
    using assms by (simp add: list_all_iff)
  moreover have "sum_list (map (\<lambda>(row, t). cross_entropy row t) (map (\<lambda>p. (f (fst p), snd p)) batch))
      = sum_list (map (\<lambda>(x, y). cross_entropy (f x) y) batch)"
    by (simp add: o_def case_prod_unfold)
  ultimately show ?thesis
    unfolding CrossEntropyLoss_sum_def z by simp
qed

lemma toy_frozen_loss:
  assumes "set batch \<subseteq> {(1, 1), (2, 1)}"
  shows "batch_loss toy_frozen_torch CrossEntropyLoss_sum K batch
           = sum_list (map (\<lambda>(x, y). cross_entropy [x, 0] y) batch)"
proof -
  from assms have "\<forall>p \<in> set batch. snd p < length [fst p, 0::real]"
    by auto
  from CrossEntropyLoss_sum_rows [of batch "\<lambda>x. [x, 0]", OF this]
  show ?thesis
    by (simp add: batch_loss_def toy_frozen_torch_def toy_torch_def del: map_map)
qed

lemma toy_frozen_iterate:
  "iterate toy_frozen_torch (toy_train_loader (Suc 0)) = (\<lambda>w. (Inr [[(1, 1)], [(2, 1)]], w))"
  "iterate toy_frozen_torch (toy_train_loader 2) = (\<lambda>w. (Inr [[(1, 1), (2, 1)]], w))"
  by (rule ext,
      simp add: iterate_def sampler_def upt_2 apply_transform_def toy_frozen_torch_def
        toy_torch_def chunks.simps toy_train_loader_def)+

lemma toy_frozen_train_returns:
  "\<exists>L1 w1. train toy_frozen_torch (toy_train_loader (Suc 0)) toy_learner CrossEntropyLoss_sum
       (process_start Map.empty toy_rngs) = (Inr L1, w1)"
  "\<exists>L2 w2. train toy_frozen_torch (toy_train_loader 2) toy_learner CrossEntropyLoss_sum
       (process_start Map.empty toy_rngs) = (Inr L2, w2)"
  by (simp add: train_def Let_def toy_frozen_iterate bind_prog_def emit_def return_def raise_def
        lift_result_def del: bind_emit,
      simp add: toy_train_loader_def len_loader_def train_batch_def call_model_def Let_def
        CrossEntropyLoss_sum_def toy_frozen_torch_def toy_torch_def toy_learner_def
        bind_prog_def emit_def return_def raise_def lift_result_def del: bind_emit)+

theorem epoch_mean_loss_witness:
  "\<exists>L1 w1 pre1 L2 w2 pre2 m.
      train toy_frozen_torch (toy_train_loader (Suc 0)) toy_learner CrossEntropyLoss_sum
        (process_start Map.empty toy_rngs) = (Inr L1, w1)
    \<and> train toy_frozen_torch (toy_train_loader 2) toy_learner CrossEntropyLoss_sum
        (process_start Map.empty toy_rngs) = (Inr L2, w2)
    \<and> trace w1 = pre1 @ [PbarPostfix m, Print_TrainElapsed]
    \<and> trace w2 = pre2 @ [PbarPostfix m, Print_TrainElapsed]"
proof -
  let ?W = "process_start Map.empty toy_rngs"
  from toy_frozen_train_returns obtain L1 w1 L2 w2 where
    e1: "train toy_frozen_torch (toy_train_loader (Suc 0)) toy_learner CrossEntropyLoss_sum ?W
           = (Inr L1, w1)" and
    e2: "train toy_frozen_torch (toy_train_loader 2) toy_learner CrossEntropyLoss_sum ?W
           = (Inr L2, w2)" by blast
  have ld: "(toy_train_loader (Suc 0))\<lparr>loader_batch_size := 2\<rparr> = toy_train_loader 2"
    "0 < loader_batch_size (toy_train_loader (Suc 0))"
    by (simp_all add: toy_train_loader_def)
  from epoch_mean_loss [OF e1] obtain batches wi pre where
    it: "iterate toy_frozen_torch (toy_train_loader (Suc 0)) ?W = (Inr batches, wi)" and
    tr: "trace w1 = pre @
        [PbarPostfix (sum_list (losses_along toy_frozen_torch CrossEntropyLoss_sum
                        (toy_learner\<lparr>training := True\<rparr>) batches)
                       / real (length (samples (dataset (toy_train_loader (Suc 0)))))),
         Print_TrainElapsed]" and
    im: "(\<exists>l. \<forall>K batch. set batch \<subseteq> set (concat batches) \<longrightarrow>
              batch_loss toy_frozen_torch CrossEntropyLoss_sum K batch
                = sum_list (map (\<lambda>(x, y). l x y) batch))
         \<and> 0 < loader_batch_size (toy_train_loader (Suc 0)) \<longrightarrow>
         (\<forall>n L2 w2. 0 < n
             \<and> train toy_frozen_torch ((toy_train_loader (Suc 0))\<lparr>loader_batch_size := n\<rparr>)
                 toy_learner CrossEntropyLoss_sum ?W = (Inr L2, w2) \<longrightarrow>
            (\<exists>pre2. trace w2 = pre2 @
               [PbarPostfix (sum_list (losses_along toy_frozen_torch CrossEntropyLoss_sum
                               (toy_learner\<lparr>training := True\<rparr>) batches)
                              / real (length (samples (dataset (toy_train_loader (Suc 0)))))),
                Print_TrainElapsed]))"
    by blast
  from it have b: "batches = [[(1, 1)], [(2, 1)]]" by (simp add: toy_frozen_iterate)
  have "\<exists>l. \<forall>K batch. set batch \<subseteq> set (concat batches) \<longrightarrow>
              batch_loss toy_frozen_torch CrossEntropyLoss_sum K batch
                = sum_list (map (\<lambda>(x, y). l x y) batch)"
    unfolding b using toy_frozen_loss by (intro exI [of _ "\<lambda>x y. cross_entropy [x, 0] y"]) simp
  with im ld(2) e2 [folded ld(1)] obtain pre2 where
    "trace w2 = pre2 @
               [PbarPostfix (sum_list (losses_along toy_frozen_torch CrossEntropyLoss_sum
                               (toy_learner\<lparr>training := True\<rparr>) batches)
                              / real (length (samples (dataset (toy_train_loader (Suc 0)))))),
                Print_TrainElapsed]"
    by (metis zero_less_numeral)
  with tr e1 e2 show ?thesis by blast
qed

end
